theory Spec2Isabelle
  imports Main "HOL-Library.AList"
begin

section \<open>JavaScript values\<close>

text \<open>
  The adapters handle values of JavaScript type \<^verbatim>\<open>any\<close>: the Echo instance, the payloads
  that are published, the errors a channel reports, the configuration handed to the factory.
  They are modelled by one datatype of plain data. Numbers are integers together with NaN:
  the code only ever tests a number for truthiness, and every non-zero number is truthy.
  An object is its table of own properties. A function value is \<open>JFun k\<close>, identified by
  the number \<open>k\<close>, when its calls return normally, and \<open>JFunThrows m\<close> when a call of it
  throws an \<^verbatim>\<open>Error\<close> with the message \<open>m\<close>. What a function does besides is not modelled:
  no callback calls the adapter from inside the call.
\<close>

datatype jsval =
    JUndefined
  | JNull
  | JBool bool
  | JNum int
  | JNaN
  | JStr string
  | JFun nat
  | JFunThrows string
  | JObj "(string \<times> jsval) list"

text \<open>What \<^verbatim>\<open>if (v)\<close>, \<^verbatim>\<open>!v\<close> and \<^verbatim>\<open>v || w\<close> test.\<close>

fun truthy :: "jsval \<Rightarrow> bool" where
  "truthy JUndefined = False"
| "truthy JNull = False"
| "truthy (JBool b) = b"
| "truthy (JNum n) = (n \<noteq> 0)"
| "truthy JNaN = False"
| "truthy (JStr s) = (s \<noteq> [])"
| "truthy (JFun f) = True"
| "truthy (JFunThrows m) = True"
| "truthy (JObj ps) = True"

definition js_or :: "jsval \<Rightarrow> jsval \<Rightarrow> jsval" where
  "js_or a b = (if truthy a then a else b)"

fun typeof :: "jsval \<Rightarrow> string" where
  "typeof JUndefined = ''undefined''"
| "typeof JNull = ''object''"
| "typeof (JBool b) = ''boolean''"
| "typeof (JNum n) = ''number''"
| "typeof JNaN = ''number''"
| "typeof (JStr s) = ''string''"
| "typeof (JFun f) = ''function''"
| "typeof (JFunThrows m) = ''function''"
| "typeof (JObj ps) = ''object''"

datatype error = TypeError | Error string

text \<open>
  A method or a handler of an adapter ends by returning or by throwing, and either way it
  leaves the adapter in some state: \<open>Inr s\<close> for a return that leaves the state \<open>s\<close>,
  \<open>Inl (e, s)\<close> for the exception \<open>e\<close> thrown when the fields had become \<open>s\<close>.
\<close>

type_synonym 's outcome = "(error \<times> 's) + 's"

fun left :: "'s outcome \<Rightarrow> 's" where
  "left (Inl (e, s)) = s"
| "left (Inr s) = s"

text \<open>
  What the evaluation of a call \<^verbatim>\<open>h(...)\<close> does, for a value \<open>h\<close>: a function returns or
  throws as said above; every other value is not callable, and the call expression throws
  a TypeError.
\<close>

fun calls :: "jsval \<Rightarrow> error option" where
  "calls (JFun k) = None"
| "calls (JFunThrows m) = Some (Error m)"
| "calls v = Some TypeError"

definition after_call :: "jsval \<Rightarrow> 's \<Rightarrow> 's outcome" where
  "after_call h s = (case calls h of None \<Rightarrow> Inr s | Some e \<Rightarrow> Inl (e, s))"

text \<open>
  Reading the property \<open>k\<close> of a value that is neither \<^verbatim>\<open>null\<close> nor \<^verbatim>\<open>undefined\<close>: an
  object answers from its table, and a missing property reads as \<^verbatim>\<open>undefined\<close>; so does any
  property of a primitive for the names used here (\<^verbatim>\<open>type\<close>, \<^verbatim>\<open>echo\<close>, \<^verbatim>\<open>callbacks\<close>,
  \<^verbatim>\<open>data\<close>, \<^verbatim>\<open>onHere\<close>, ...).
\<close>

fun js_get :: "jsval \<Rightarrow> string \<Rightarrow> jsval" where
  "js_get (JObj ps) k = (case map_of ps k of None \<Rightarrow> JUndefined | Some v \<Rightarrow> v)"
| "js_get v k = JUndefined"

text \<open>The member access \<^verbatim>\<open>v.k\<close> on any value: a TypeError on \<^verbatim>\<open>null\<close> and \<^verbatim>\<open>undefined\<close>.\<close>

definition get_prop :: "jsval \<Rightarrow> string \<Rightarrow> error + jsval" where
  "get_prop v k = (if v = JNull \<or> v = JUndefined then Inl TypeError else Inr (js_get v k))"

section \<open>The adapters' state\<close>

type_synonym topic = string

text \<open>
  A channel object of the broadcasting framework, as \<^verbatim>\<open>echo.private(name)\<close> and
  \<^verbatim>\<open>echo.join(name)\<close> return it, is identified by the name it was opened with.
\<close>

type_synonym channel = string

text \<open>A listener registered on the observable is identified by a number.\<close>

type_synonym listener = nat

text \<open>
  A presence member (\<^verbatim>\<open>PresenceChannelMember\<close>: \<^verbatim>\<open>id: number|string\<close>, \<^verbatim>\<open>info: any\<close>).
  On numbers and strings the strict comparison \<^verbatim>\<open>!==\<close> of the leaving handler is
  inequality of the values (a number never equals a string).
\<close>

datatype member_id = NumId int | StrId string

record PresenceChannelMember =
  id' :: member_id
  info :: jsval

text \<open>The argument of a \<^verbatim>\<open>message\<close> event: \<^verbatim>\<open>{ topic, data }\<close>.\<close>

datatype message = Message topic jsval

text \<open>
  What an adapter does to the world outside of its own fields is appended to a trace:
  the channels it opens and leaves on the Echo instance, the whispers it sends on a
  channel, what it writes to the console, and its calls of the wired callbacks and of the
  listeners of the observable, each with its arguments. An entry \<open>CallOn...\<close> stands for
  the evaluation of the call expression on a truthy hook; \<open>calls\<close> says how that ends. The
  listeners of the observable return normally. The registration of the handlers on a new
  channel is no entry of the trace: the handlers are the functions \<open>echo_on_subscribed\<close>,
  \<open>presence_on_here\<close>, ... below, and a run decides when they are called.
\<close>

datatype effect =
    EchoPrivate string
  | EchoJoin string
  | EchoLeave string
  | Whisper channel jsval
  | ConsoleError string jsval
  | Notify listener string "message list"
  | CallOnHere jsval "PresenceChannelMember list"
  | CallOnJoining jsval PresenceChannelMember
  | CallOnLeaving jsval PresenceChannelMember
  | CallOnError jsval jsval string
  | CallOnSubscribed jsval string

text \<open>A task handed to \<^verbatim>\<open>setTimeout(..., 0)\<close>. The adapters schedule one kind only.\<close>

datatype task = EmitConnect

text \<open>
  \<^verbatim>\<open>SignalingAdapter\<close> (the base class): the field \<open>connected\<close>, and the listeners of the
  \<^verbatim>\<open>Observable\<close> it extends. The record also carries the two parts of the environment an
  adapter acts on: the timers that are pending and the trace of effects.
\<close>

record SignalingAdapter =
  connected :: bool
  observers :: "string \<Rightarrow> listener list"
  timers :: "task list"
  trace :: "effect list"

text \<open>
  \<^verbatim>\<open>LaravelEchoAdapter\<close>. \<open>channels\<close> is a JavaScript \<^verbatim>\<open>Map\<close> that \<^verbatim>\<open>disconnect\<close> iterates,
  so it is an association list in insertion order; \<open>readyChannels\<close> is a \<^verbatim>\<open>Set\<close> and
  \<open>messageQueue\<close> a \<^verbatim>\<open>Map\<close> that are never iterated.
\<close>

record LaravelEchoAdapter = SignalingAdapter +
  echo :: jsval
  channels :: "(topic \<times> channel) list"
  readyChannels :: "topic set"
  messageQueue :: "topic \<rightharpoonup> jsval list"
  shouldConnect :: bool

text \<open>
  \<^verbatim>\<open>LaravelEchoPresenceAdapter\<close> declares the same five fields again and adds the rosters
  and the callbacks. In the source both classes extend \<^verbatim>\<open>SignalingAdapter\<close>; the record
  extension only lets the two models share the names of the fields.
\<close>

record PresenceCallbacks =
  onHere :: jsval
  onJoining :: jsval
  onLeaving :: jsval
  onError :: jsval
  onSubscribed :: jsval

record LaravelEchoPresenceAdapter = LaravelEchoAdapter +
  presenceMembers :: "topic \<rightharpoonup> PresenceChannelMember list"
  callbacks :: PresenceCallbacks

text \<open>\<^verbatim>\<open>DefaultSignalingAdapter\<close>: only its constructor is needed here.\<close>

record DefaultSignalingAdapter = SignalingAdapter +
  ws :: jsval
  url :: string

section \<open>The observable and the timer queue\<close>

text \<open>
  Modelled from the spec: the observable primitive (\<^verbatim>\<open>lib0/observable\<close>) and the timer queue
  of the runtime are not part of the repository. The spec assumes a primitive with
  register and emit, and a one-shot task that runs after the current synchronous turn.
  \<open>on\<close> adds a listener to the set kept for an event name, \<open>emit\<close> calls the listeners
  registered for the name at that moment, in the order of their registration, and
  \<open>Observable_destroy\<close> forgets every listener.
\<close>

definition on :: "string \<Rightarrow> listener \<Rightarrow> 'a SignalingAdapter_scheme \<Rightarrow> 'a SignalingAdapter_scheme" where
  "on name f s =
     (if f \<in> set (observers s name) then s
      else s\<lparr>observers := (observers s)(name := observers s name @ [f])\<rparr>)"

definition emit :: "string \<Rightarrow> message list \<Rightarrow> 'a SignalingAdapter_scheme \<Rightarrow> 'a SignalingAdapter_scheme" where
  "emit name args s = s\<lparr>trace := trace s @ map (\<lambda>f. Notify f name args) (observers s name)\<rparr>"

definition Observable_destroy :: "'a SignalingAdapter_scheme \<Rightarrow> 'a SignalingAdapter_scheme" where
  "Observable_destroy s = s\<lparr>observers := (\<lambda>name. [])\<rparr>"

text \<open>
  Modelled from the spec: \<^verbatim>\<open>setTimeout(f, 0)\<close> appends the task to the pending timers;
  the runtime runs the oldest pending timer in a later turn, once.
\<close>

definition setTimeout :: "task \<Rightarrow> 'a SignalingAdapter_scheme \<Rightarrow> 'a SignalingAdapter_scheme" where
  "setTimeout t s = s\<lparr>timers := timers s @ [t]\<rparr>"

fun run_task :: "task \<Rightarrow> 'a SignalingAdapter_scheme \<Rightarrow> 'a SignalingAdapter_scheme" where
  "run_task EmitConnect s = emit ''connect'' [] s"

definition timer_fires :: "'a SignalingAdapter_scheme \<Rightarrow> 'a SignalingAdapter_scheme" where
  "timer_fires s =
     (case timers s of [] \<Rightarrow> s | t # ts \<Rightarrow> run_task t (s\<lparr>timers := ts\<rparr>))"

text \<open>\<^verbatim>\<open>SignalingAdapter.destroy\<close>: \<^verbatim>\<open>super.destroy()\<close>.\<close>

definition SignalingAdapter_destroy :: "'a SignalingAdapter_scheme \<Rightarrow> 'a SignalingAdapter_scheme" where
  "SignalingAdapter_destroy s = Observable_destroy s"

text \<open>A loop \<^verbatim>\<open>xs.forEach(f)\<close> whose body may throw stops at the first exception.\<close>

fun forEach :: "('a \<Rightarrow> 's \<Rightarrow> 's outcome) \<Rightarrow> 'a list \<Rightarrow> 's \<Rightarrow> 's outcome" where
  "forEach f [] s = Inr s"
| "forEach f (x # xs) s = (case f x s of Inl e \<Rightarrow> Inl e | Inr s' \<Rightarrow> forEach f xs s')"

section \<open>What the two Echo adapters share\<close>

text \<open>
  \<^verbatim>\<open>connect\<close>, \<^verbatim>\<open>_getChannelName\<close>, \<^verbatim>\<open>publish\<close> and the two message handlers have the same
  body in \<^verbatim>\<open>LaravelEchoAdapter\<close> and in \<^verbatim>\<open>LaravelEchoPresenceAdapter\<close>; each is defined once,
  for every record that has the fields of \<^verbatim>\<open>LaravelEchoAdapter\<close>.
\<close>

definition log :: "effect \<Rightarrow> 'a SignalingAdapter_scheme \<Rightarrow> 'a SignalingAdapter_scheme" where
  "log e s = s\<lparr>trace := trace s @ [e]\<rparr>"

text \<open>
  \<^verbatim>\<open>connect(url)\<close>: the two flags are set and the emission of \<^verbatim>\<open>connect\<close> is handed to
  \<^verbatim>\<open>setTimeout(..., 0)\<close>; the url \<open>u\<close> is not used.
\<close>

definition connect :: "string \<Rightarrow> 'a LaravelEchoAdapter_scheme \<Rightarrow> 'a LaravelEchoAdapter_scheme" where
  "connect u s = setTimeout EmitConnect (s\<lparr>shouldConnect := True, connected := True\<rparr>)"

definition getChannelName :: "topic \<Rightarrow> string" where
  "getChannelName topic = ''y-webrtc.'' @ topic"

text \<open>
  \<^verbatim>\<open>this.echo.leave(name)\<close>: a method call on the Echo instance. A falsy value has no
  method \<^verbatim>\<open>leave\<close>, and the call throws a TypeError; a truthy value is an Echo instance.
\<close>

definition echo_leave :: "string \<Rightarrow> 'a LaravelEchoAdapter_scheme \<Rightarrow> 'a LaravelEchoAdapter_scheme outcome" where
  "echo_leave name s =
     (if truthy (echo s) then Inr (log (EchoLeave name) s) else Inl (TypeError, s))"

text \<open>
  \<^verbatim>\<open>this.messageQueue.get(topic) || []\<close>: the queue of a topic, empty when the map has none.
  \<^verbatim>\<open>publish(topic, data)\<close>: nothing without a channel for the topic; a whisper on the
  channel when the topic is ready; otherwise the data is pushed onto the queue of the topic,
  which is created empty when missing.
\<close>

definition queuedMessages :: "topic \<Rightarrow> 'a LaravelEchoAdapter_scheme \<Rightarrow> jsval list" where
  "queuedMessages topic s = (case messageQueue s topic of None \<Rightarrow> [] | Some q \<Rightarrow> q)"

definition publish :: "topic \<Rightarrow> jsval \<Rightarrow> 'a LaravelEchoAdapter_scheme \<Rightarrow> 'a LaravelEchoAdapter_scheme" where
  "publish topic data s =
     (case map_of (channels s) topic of
        None \<Rightarrow> s
      | Some channel \<Rightarrow>
          if topic \<in> readyChannels s then log (Whisper channel data) s
          else s\<lparr>messageQueue := (messageQueue s)(topic \<mapsto> queuedMessages topic s @ [data])\<rparr>)"

text \<open>
  The handler of \<^verbatim>\<open>channel.listen('.signaling', ...)\<close>: \<^verbatim>\<open>event.data\<close> is read, then
  \<^verbatim>\<open>message\<close> is emitted. The handler of \<^verbatim>\<open>channel.listenForWhisper('signaling', ...)\<close>
  emits the event itself as the data.
\<close>

definition on_listen :: "topic \<Rightarrow> jsval \<Rightarrow> 'a LaravelEchoAdapter_scheme \<Rightarrow> 'a LaravelEchoAdapter_scheme outcome" where
  "on_listen topic event s =
     (case get_prop event ''data'' of
        Inl e \<Rightarrow> Inl (e, s)
      | Inr d \<Rightarrow> Inr (emit ''message'' [Message topic d] s))"

definition on_listenForWhisper :: "topic \<Rightarrow> jsval \<Rightarrow> 'a LaravelEchoAdapter_scheme \<Rightarrow> 'a LaravelEchoAdapter_scheme" where
  "on_listenForWhisper topic event s = emit ''message'' [Message topic event] s"

text \<open>
  The flush of the handler of \<^verbatim>\<open>channel.subscribed\<close>:
  \<^verbatim>\<open>queuedMessages.forEach(data => channel.whisper('signaling', data))\<close>.
\<close>

definition flush :: "topic \<Rightarrow> channel \<Rightarrow> 'a LaravelEchoAdapter_scheme \<Rightarrow> 'a LaravelEchoAdapter_scheme" where
  "flush topic channel s = fold (\<lambda>data. log (Whisper channel data)) (queuedMessages topic s) s"

section \<open>LaravelEchoAdapter\<close>

definition LaravelEchoAdapter_new :: "jsval \<Rightarrow> LaravelEchoAdapter" where
  "LaravelEchoAdapter_new echoInstance =
     \<lparr>connected = False, observers = (\<lambda>name. []), timers = [], trace = [],
      echo = echoInstance, channels = [], readyChannels = {}, messageQueue = Map.empty,
      shouldConnect = False\<rparr>"

text \<open>
  \<^verbatim>\<open>disconnect()\<close>: the flags are reset, every channel is left in the order of the map,
  the three maps are cleared and \<^verbatim>\<open>disconnect\<close> is emitted.
\<close>

definition echo_disconnect :: "LaravelEchoAdapter \<Rightarrow> LaravelEchoAdapter outcome" where
  "echo_disconnect s =
     (let s1 = s\<lparr>shouldConnect := False, connected := False\<rparr>
      in case forEach (\<lambda>(topic, channel). echo_leave (getChannelName topic)) (channels s1) s1 of
           Inl e \<Rightarrow> Inl e
         | Inr s2 \<Rightarrow>
             Inr (emit ''disconnect'' []
                   (s2\<lparr>channels := [], readyChannels := {}, messageQueue := Map.empty\<rparr>)))"

text \<open>The handlers that \<^verbatim>\<open>subscribe\<close> registers on the channel of a topic.\<close>

definition echo_on_subscribed :: "topic \<Rightarrow> channel \<Rightarrow> LaravelEchoAdapter \<Rightarrow> LaravelEchoAdapter" where
  "echo_on_subscribed topic channel s =
     (let s1 = s\<lparr>readyChannels := insert topic (readyChannels s)\<rparr>;
          s2 = flush topic channel s1
      in s2\<lparr>messageQueue := (messageQueue s2)(topic := None)\<rparr>)"

definition echo_on_error :: "string \<Rightarrow> jsval \<Rightarrow> LaravelEchoAdapter \<Rightarrow> LaravelEchoAdapter" where
  "echo_on_error channelName err s =
     log (ConsoleError (''LaravelEchoAdapter: Error subscribing to '' @ channelName @ '':'') err) s"

text \<open>
  \<^verbatim>\<open>subscribe(topics)\<close>: nothing unless \<open>shouldConnect\<close> holds and the Echo instance is
  truthy; then, for each topic without a channel, a private channel is opened, the four
  handlers above are registered on it, and the channel is stored.
\<close>

definition echo_subscribe_topic :: "topic \<Rightarrow> LaravelEchoAdapter \<Rightarrow> LaravelEchoAdapter" where
  "echo_subscribe_topic topic s =
     (if map_of (channels s) topic \<noteq> None then s
      else
        let channelName = getChannelName topic;
            s1 = log (EchoPrivate channelName) s;
            channel = channelName
        in s1\<lparr>channels := AList.update topic channel (channels s1)\<rparr>)"

definition echo_subscribe :: "topic list \<Rightarrow> LaravelEchoAdapter \<Rightarrow> LaravelEchoAdapter" where
  "echo_subscribe topics s =
     (if \<not> shouldConnect s \<or> \<not> truthy (echo s) then s
      else fold echo_subscribe_topic topics s)"

text \<open>
  \<^verbatim>\<open>unsubscribe(topics)\<close>: each topic that has a channel is left and deleted from the
  three maps.
\<close>

definition echo_unsubscribe_topic :: "topic \<Rightarrow> LaravelEchoAdapter \<Rightarrow> LaravelEchoAdapter outcome" where
  "echo_unsubscribe_topic topic s =
     (case map_of (channels s) topic of
        None \<Rightarrow> Inr s
      | Some channel \<Rightarrow>
          (case echo_leave (getChannelName topic) s of
             Inl e \<Rightarrow> Inl e
           | Inr s1 \<Rightarrow>
               Inr (s1\<lparr>channels := AList.delete topic (channels s1),
                        readyChannels := readyChannels s1 - {topic},
                        messageQueue := (messageQueue s1)(topic := None)\<rparr>)))"

definition echo_unsubscribe :: "topic list \<Rightarrow> LaravelEchoAdapter \<Rightarrow> LaravelEchoAdapter outcome" where
  "echo_unsubscribe topics s = forEach echo_unsubscribe_topic topics s"

definition echo_destroy :: "LaravelEchoAdapter \<Rightarrow> LaravelEchoAdapter outcome" where
  "echo_destroy s =
     (case echo_disconnect s of
        Inl e \<Rightarrow> Inl e
      | Inr s1 \<Rightarrow> Inr (SignalingAdapter_destroy s1))"

section \<open>LaravelEchoPresenceAdapter\<close>

text \<open>
  The constructor: \<^verbatim>\<open>callbacks = {}\<close> replaces an argument that is \<^verbatim>\<open>undefined\<close> only, and
  each hook is read as \<^verbatim>\<open>callbacks.onHere || null\<close>. The first read throws a TypeError when
  the argument is \<^verbatim>\<open>null\<close>; the other four read the same value.
\<close>

definition LaravelEchoPresenceAdapter_new :: "jsval \<Rightarrow> jsval \<Rightarrow> error + LaravelEchoPresenceAdapter" where
  "LaravelEchoPresenceAdapter_new echoInstance callbacks_arg =
     (let cbs = (if callbacks_arg = JUndefined then JObj [] else callbacks_arg)
      in case get_prop cbs ''onHere'' of
           Inl e \<Rightarrow> Inl e
         | Inr h \<Rightarrow>
             Inr \<lparr>connected = False, observers = (\<lambda>name. []), timers = [], trace = [],
                  echo = echoInstance, channels = [], readyChannels = {},
                  messageQueue = Map.empty, shouldConnect = False,
                  presenceMembers = Map.empty,
                  callbacks =
                    \<lparr>onHere = js_or h JNull,
                     onJoining = js_or (js_get cbs ''onJoining'') JNull,
                     onLeaving = js_or (js_get cbs ''onLeaving'') JNull,
                     onError = js_or (js_get cbs ''onError'') JNull,
                     onSubscribed = js_or (js_get cbs ''onSubscribed'') JNull\<rparr>\<rparr>)"

text \<open>The fluent setters: each replaces one hook and returns the adapter.\<close>

definition presence_onHere :: "jsval \<Rightarrow> LaravelEchoPresenceAdapter \<Rightarrow> LaravelEchoPresenceAdapter" where
  "presence_onHere callback s = s\<lparr>callbacks := (callbacks s)\<lparr>onHere := callback\<rparr>\<rparr>"

definition presence_onJoining :: "jsval \<Rightarrow> LaravelEchoPresenceAdapter \<Rightarrow> LaravelEchoPresenceAdapter" where
  "presence_onJoining callback s = s\<lparr>callbacks := (callbacks s)\<lparr>onJoining := callback\<rparr>\<rparr>"

definition presence_onLeaving :: "jsval \<Rightarrow> LaravelEchoPresenceAdapter \<Rightarrow> LaravelEchoPresenceAdapter" where
  "presence_onLeaving callback s = s\<lparr>callbacks := (callbacks s)\<lparr>onLeaving := callback\<rparr>\<rparr>"

definition presence_onError :: "jsval \<Rightarrow> LaravelEchoPresenceAdapter \<Rightarrow> LaravelEchoPresenceAdapter" where
  "presence_onError callback s = s\<lparr>callbacks := (callbacks s)\<lparr>onError := callback\<rparr>\<rparr>"

definition presence_onSubscribed :: "jsval \<Rightarrow> LaravelEchoPresenceAdapter \<Rightarrow> LaravelEchoPresenceAdapter" where
  "presence_onSubscribed callback s = s\<lparr>callbacks := (callbacks s)\<lparr>onSubscribed := callback\<rparr>\<rparr>"

text \<open>\<^verbatim>\<open>getPresenceMembers(topic)\<close>: \<^verbatim>\<open>this.presenceMembers.get(topic) || []\<close>.\<close>

definition getPresenceMembers :: "topic \<Rightarrow> LaravelEchoPresenceAdapter \<Rightarrow> PresenceChannelMember list" where
  "getPresenceMembers topic s = (case presenceMembers s topic of None \<Rightarrow> [] | Some ms \<Rightarrow> ms)"

definition presence_disconnect :: "LaravelEchoPresenceAdapter \<Rightarrow> LaravelEchoPresenceAdapter outcome" where
  "presence_disconnect s =
     (let s1 = s\<lparr>shouldConnect := False, connected := False\<rparr>
      in case forEach (\<lambda>(topic, channel). echo_leave (getChannelName topic)) (channels s1) s1 of
           Inl e \<Rightarrow> Inl e
         | Inr s2 \<Rightarrow>
             Inr (emit ''disconnect'' []
                   (s2\<lparr>channels := [], readyChannels := {}, messageQueue := Map.empty,
                       presenceMembers := Map.empty\<rparr>)))"

text \<open>
  The handlers that \<^verbatim>\<open>subscribe\<close> registers on the presence channel of a topic. A roster
  is a value here: the array that the transport hands to \<^verbatim>\<open>here\<close> is a fresh one for each
  call, and nobody else changes it afterwards, so that \<^verbatim>\<open>members.push(member)\<close> in the
  joining handler is seen in the roster of this topic only.

  In the handlers of \<^verbatim>\<open>here\<close>, \<^verbatim>\<open>joining\<close>, \<^verbatim>\<open>leaving\<close> and \<^verbatim>\<open>error\<close> the call of the hook is
  the last statement. \<open>presence_on_here\<close>, \<open>presence_on_joining\<close>, \<open>presence_on_leaving\<close> and
  \<open>presence_on_error\<close> give the state in which the handler leaves the adapter, whether the
  call returns or throws; \<open>ends_with_call\<close> says which of the two happens.
\<close>

definition ends_with_call :: "jsval \<Rightarrow> 's \<Rightarrow> 's outcome" where
  "ends_with_call hook s = (if truthy hook then after_call hook s else Inr s)"

definition presence_on_here :: "topic \<Rightarrow> PresenceChannelMember list \<Rightarrow> LaravelEchoPresenceAdapter \<Rightarrow> LaravelEchoPresenceAdapter" where
  "presence_on_here topic members s =
     (let s1 = s\<lparr>presenceMembers := (presenceMembers s)(topic \<mapsto> members)\<rparr>
      in if truthy (onHere (callbacks s1)) then log (CallOnHere (onHere (callbacks s1)) members) s1
         else s1)"

definition presence_on_joining :: "topic \<Rightarrow> PresenceChannelMember \<Rightarrow> LaravelEchoPresenceAdapter \<Rightarrow> LaravelEchoPresenceAdapter" where
  "presence_on_joining topic member s =
     (let members = (case presenceMembers s topic of None \<Rightarrow> [] | Some ms \<Rightarrow> ms);
          s1 = s\<lparr>presenceMembers := (presenceMembers s)(topic \<mapsto> members @ [member])\<rparr>
      in if truthy (onJoining (callbacks s1)) then log (CallOnJoining (onJoining (callbacks s1)) member) s1
         else s1)"

definition presence_on_leaving :: "topic \<Rightarrow> PresenceChannelMember \<Rightarrow> LaravelEchoPresenceAdapter \<Rightarrow> LaravelEchoPresenceAdapter" where
  "presence_on_leaving topic member s =
     (let members = (case presenceMembers s topic of None \<Rightarrow> [] | Some ms \<Rightarrow> ms);
          filtered = filter (\<lambda>m. id' m \<noteq> id' member) members;
          s1 = s\<lparr>presenceMembers := (presenceMembers s)(topic \<mapsto> filtered)\<rparr>
      in if truthy (onLeaving (callbacks s1)) then log (CallOnLeaving (onLeaving (callbacks s1)) member) s1
         else s1)"

text \<open>
  The handler of \<^verbatim>\<open>channel.subscribed\<close> calls the hook between \<^verbatim>\<open>this.readyChannels.add(topic)\<close>
  and the flush: when the call throws, the handler ends there, with the topic ready and
  its queue neither sent nor deleted.
\<close>

definition presence_on_subscribed :: "topic \<Rightarrow> string \<Rightarrow> channel \<Rightarrow> LaravelEchoPresenceAdapter \<Rightarrow> LaravelEchoPresenceAdapter outcome" where
  "presence_on_subscribed topic channelName channel s =
     (let s1 = s\<lparr>readyChannels := insert topic (readyChannels s)\<rparr>
      in case (if truthy (onSubscribed (callbacks s1))
               then after_call (onSubscribed (callbacks s1))
                      (log (CallOnSubscribed (onSubscribed (callbacks s1)) channelName) s1)
               else Inr s1) of
           Inl e \<Rightarrow> Inl e
         | Inr s2 \<Rightarrow>
             (let s3 = flush topic channel s2
              in Inr (s3\<lparr>messageQueue := (messageQueue s3)(topic := None)\<rparr>)))"

definition presence_on_error :: "string \<Rightarrow> jsval \<Rightarrow> LaravelEchoPresenceAdapter \<Rightarrow> LaravelEchoPresenceAdapter" where
  "presence_on_error channelName err s =
     (let s1 = log (ConsoleError (''LaravelEchoPresenceAdapter: Error subscribing to '' @ channelName @ '':'') err) s
      in if truthy (onError (callbacks s1)) then log (CallOnError (onError (callbacks s1)) err channelName) s1
         else s1)"

definition presence_subscribe_topic :: "topic \<Rightarrow> LaravelEchoPresenceAdapter \<Rightarrow> LaravelEchoPresenceAdapter" where
  "presence_subscribe_topic topic s =
     (if map_of (channels s) topic \<noteq> None then s
      else
        let channelName = getChannelName topic;
            s1 = log (EchoJoin channelName) s;
            channel = channelName
        in s1\<lparr>channels := AList.update topic channel (channels s1)\<rparr>)"

definition presence_subscribe :: "topic list \<Rightarrow> LaravelEchoPresenceAdapter \<Rightarrow> LaravelEchoPresenceAdapter" where
  "presence_subscribe topics s =
     (if \<not> shouldConnect s \<or> \<not> truthy (echo s) then s
      else fold presence_subscribe_topic topics s)"

definition presence_unsubscribe_topic :: "topic \<Rightarrow> LaravelEchoPresenceAdapter \<Rightarrow> LaravelEchoPresenceAdapter outcome" where
  "presence_unsubscribe_topic topic s =
     (case map_of (channels s) topic of
        None \<Rightarrow> Inr s
      | Some channel \<Rightarrow>
          (case echo_leave (getChannelName topic) s of
             Inl e \<Rightarrow> Inl e
           | Inr s1 \<Rightarrow>
               Inr (s1\<lparr>channels := AList.delete topic (channels s1),
                        readyChannels := readyChannels s1 - {topic},
                        messageQueue := (messageQueue s1)(topic := None),
                        presenceMembers := (presenceMembers s1)(topic := None)\<rparr>)))"

definition presence_unsubscribe :: "topic list \<Rightarrow> LaravelEchoPresenceAdapter \<Rightarrow> LaravelEchoPresenceAdapter outcome" where
  "presence_unsubscribe topics s = forEach presence_unsubscribe_topic topics s"

definition presence_destroy :: "LaravelEchoPresenceAdapter \<Rightarrow> LaravelEchoPresenceAdapter outcome" where
  "presence_destroy s =
     (case presence_disconnect s of
        Inl e \<Rightarrow> Inl e
      | Inr s1 \<Rightarrow> Inr (SignalingAdapter_destroy s1))"

section \<open>The factory\<close>

definition DefaultSignalingAdapter_new :: DefaultSignalingAdapter where
  "DefaultSignalingAdapter_new =
     \<lparr>connected = False, observers = (\<lambda>name. []), timers = [], trace = [],
      ws = JNull, url = []\<rparr>"

text \<open>
  An instance of \<^verbatim>\<open>SignalingAdapter\<close> is one of the three adapters or an instance of another
  subclass (or of the base class itself).
\<close>

datatype adapter =
    Default DefaultSignalingAdapter
  | Echo LaravelEchoAdapter
  | Presence LaravelEchoPresenceAdapter
  | Other SignalingAdapter

text \<open>
  The argument of the factory: an object for which \<^verbatim>\<open>config instanceof SignalingAdapter\<close>
  holds, or any other value.
\<close>

datatype config = Instance adapter | Value jsval

text \<open>
  \<^verbatim>\<open>createSignalingAdapter(config)\<close>. The source holds the factory twice; this is the later
  variant, which knows \<^verbatim>\<open>'echo-presence'\<close> (the earlier one lacks that case and is the same
  otherwise). The \<^verbatim>\<open>switch\<close> compares \<^verbatim>\<open>config.type\<close> strictly with the two strings;
  \<^verbatim>\<open>'default'\<close> and every other value take the default branch.
\<close>

fun createSignalingAdapter :: "config \<Rightarrow> error + adapter" where
  "createSignalingAdapter (Instance a) = Inr a"
| "createSignalingAdapter (Value v) =
     (if typeof v = ''string'' then Inr (Default DefaultSignalingAdapter_new)
      else if typeof v = ''object'' \<and> v \<noteq> JNull then
        (if js_get v ''type'' = JStr ''echo'' then
           (if \<not> truthy (js_get v ''echo'')
            then Inl (Error ''Laravel Echo instance is required for LaravelEchoAdapter'')
            else Inr (Echo (LaravelEchoAdapter_new (js_get v ''echo''))))
         else if js_get v ''type'' = JStr ''echo-presence'' then
           (if \<not> truthy (js_get v ''echo'')
            then Inl (Error ''Laravel Echo instance is required for LaravelEchoPresenceAdapter'')
            else (case LaravelEchoPresenceAdapter_new (js_get v ''echo'') (js_get v ''callbacks'') of
                    Inl e \<Rightarrow> Inl e
                  | Inr a \<Rightarrow> Inr (Presence a)))
         else Inr (Default DefaultSignalingAdapter_new))
      else Inr (Default DefaultSignalingAdapter_new))"

section \<open>Runs of an adapter\<close>

text \<open>
  What can happen to an adapter, one synchronous turn at a time: a call of one of its
  methods, a pending timer that fires, or a callback of the transport on the channel of a
  topic. The handlers of a channel exist from the \<^verbatim>\<open>subscribe\<close> that opened the channel
  until the channel is left (\<^verbatim>\<open>echo.leave\<close> ends the subscription): a callback for a
  topic finds the handlers of the channel stored for that topic, and for a topic without
  channel there is no handler to run. Neither a hook nor a listener calls the adapter
  from inside the call. A step gives the outcome of the turn: a return or an exception,
  and the state the adapter is left in.
\<close>

datatype event =
    Connect string
  | Disconnect
  | Subscribe "topic list"
  | Unsubscribe "topic list"
  | Publish topic jsval
  | Destroy
  | On string listener
  | TimerFires
  | ChannelSubscribed topic
  | ChannelError topic jsval
  | ChannelListen topic jsval
  | ChannelWhisper topic jsval

fun echo_step :: "event \<Rightarrow> LaravelEchoAdapter \<Rightarrow> LaravelEchoAdapter outcome" where
  "echo_step (Connect u) s = Inr (connect u s)"
| "echo_step Disconnect s = echo_disconnect s"
| "echo_step (Subscribe topics) s = Inr (echo_subscribe topics s)"
| "echo_step (Unsubscribe topics) s = echo_unsubscribe topics s"
| "echo_step (Publish topic data) s = Inr (publish topic data s)"
| "echo_step Destroy s = echo_destroy s"
| "echo_step (On name f) s = Inr (on name f s)"
| "echo_step TimerFires s = Inr (timer_fires s)"
| "echo_step (ChannelSubscribed topic) s =
     (case map_of (channels s) topic of
        None \<Rightarrow> Inr s
      | Some channel \<Rightarrow> Inr (echo_on_subscribed topic channel s))"
| "echo_step (ChannelError topic err) s =
     (case map_of (channels s) topic of
        None \<Rightarrow> Inr s
      | Some channel \<Rightarrow> Inr (echo_on_error (getChannelName topic) err s))"
| "echo_step (ChannelListen topic ev) s =
     (case map_of (channels s) topic of
        None \<Rightarrow> Inr s
      | Some channel \<Rightarrow> on_listen topic ev s)"
| "echo_step (ChannelWhisper topic ev) s =
     (case map_of (channels s) topic of
        None \<Rightarrow> Inr s
      | Some channel \<Rightarrow> Inr (on_listenForWhisper topic ev s))"

text \<open>
  \<open>echo_run\<close> is a sequence of turns up to the first one that throws. The adapter is still
  there after an exception, and the next turn finds it in the state the exception left:
  \<open>echo_reach\<close> is the state after all the turns.
\<close>

definition echo_run :: "event list \<Rightarrow> LaravelEchoAdapter \<Rightarrow> LaravelEchoAdapter outcome" where
  "echo_run evs s = forEach echo_step evs s"

definition echo_reach :: "event list \<Rightarrow> LaravelEchoAdapter \<Rightarrow> LaravelEchoAdapter" where
  "echo_reach evs s = fold (\<lambda>ev s. left (echo_step ev s)) evs s"

datatype presence_event =
    Common event
  | ChannelHere topic "PresenceChannelMember list"
  | ChannelJoining topic PresenceChannelMember
  | ChannelLeaving topic PresenceChannelMember
  | SetOnHere jsval
  | SetOnJoining jsval
  | SetOnLeaving jsval
  | SetOnError jsval
  | SetOnSubscribed jsval

fun presence_step :: "presence_event \<Rightarrow> LaravelEchoPresenceAdapter \<Rightarrow> LaravelEchoPresenceAdapter outcome" where
  "presence_step (Common (Connect u)) s = Inr (connect u s)"
| "presence_step (Common Disconnect) s = presence_disconnect s"
| "presence_step (Common (Subscribe topics)) s = Inr (presence_subscribe topics s)"
| "presence_step (Common (Unsubscribe topics)) s = presence_unsubscribe topics s"
| "presence_step (Common (Publish topic data)) s = Inr (publish topic data s)"
| "presence_step (Common Destroy) s = presence_destroy s"
| "presence_step (Common (On name f)) s = Inr (on name f s)"
| "presence_step (Common TimerFires) s = Inr (timer_fires s)"
| "presence_step (Common (ChannelSubscribed topic)) s =
     (case map_of (channels s) topic of
        None \<Rightarrow> Inr s
      | Some channel \<Rightarrow> presence_on_subscribed topic (getChannelName topic) channel s)"
| "presence_step (Common (ChannelError topic err)) s =
     (case map_of (channels s) topic of
        None \<Rightarrow> Inr s
      | Some channel \<Rightarrow>
          ends_with_call (onError (callbacks s)) (presence_on_error (getChannelName topic) err s))"
| "presence_step (Common (ChannelListen topic ev)) s =
     (case map_of (channels s) topic of
        None \<Rightarrow> Inr s
      | Some channel \<Rightarrow> on_listen topic ev s)"
| "presence_step (Common (ChannelWhisper topic ev)) s =
     (case map_of (channels s) topic of
        None \<Rightarrow> Inr s
      | Some channel \<Rightarrow> Inr (on_listenForWhisper topic ev s))"
| "presence_step (ChannelHere topic members) s =
     (case map_of (channels s) topic of
        None \<Rightarrow> Inr s
      | Some channel \<Rightarrow>
          ends_with_call (onHere (callbacks s)) (presence_on_here topic members s))"
| "presence_step (ChannelJoining topic member) s =
     (case map_of (channels s) topic of
        None \<Rightarrow> Inr s
      | Some channel \<Rightarrow>
          ends_with_call (onJoining (callbacks s)) (presence_on_joining topic member s))"
| "presence_step (ChannelLeaving topic member) s =
     (case map_of (channels s) topic of
        None \<Rightarrow> Inr s
      | Some channel \<Rightarrow>
          ends_with_call (onLeaving (callbacks s)) (presence_on_leaving topic member s))"
| "presence_step (SetOnHere cb) s = Inr (presence_onHere cb s)"
| "presence_step (SetOnJoining cb) s = Inr (presence_onJoining cb s)"
| "presence_step (SetOnLeaving cb) s = Inr (presence_onLeaving cb s)"
| "presence_step (SetOnError cb) s = Inr (presence_onError cb s)"
| "presence_step (SetOnSubscribed cb) s = Inr (presence_onSubscribed cb s)"

definition presence_run :: "presence_event list \<Rightarrow> LaravelEchoPresenceAdapter \<Rightarrow> LaravelEchoPresenceAdapter outcome" where
  "presence_run evs s = forEach presence_step evs s"

definition presence_reach :: "presence_event list \<Rightarrow> LaravelEchoPresenceAdapter \<Rightarrow> LaravelEchoPresenceAdapter" where
  "presence_reach evs s = fold (\<lambda>ev s. left (presence_step ev s)) evs s"

section \<open>Notions the properties are stated with\<close>

text \<open>The topics that have a channel: the keys of \<open>channels\<close>.\<close>

definition bound :: "'a LaravelEchoAdapter_scheme \<Rightarrow> topic set" where
  "bound s = fst ` set (channels s)"

text \<open>
  The channel of every topic is the one \<^verbatim>\<open>subscribe\<close> opened for it, under the name
  \<^verbatim>\<open>_getChannelName(topic)\<close>.
\<close>

definition names_ok :: "'a LaravelEchoAdapter_scheme \<Rightarrow> bool" where
  "names_ok s \<longleftrightarrow> (\<forall>T c. (T, c) \<in> set (channels s) \<longrightarrow> c = getChannelName T)"

text \<open>
  A hook for which \<^verbatim>\<open>if (hook) hook(...)\<close> does not throw: it is falsy (not wired), or a
  function whose calls return.
\<close>

definition returns :: "jsval \<Rightarrow> bool" where
  "returns hook \<longleftrightarrow> \<not> truthy hook \<or> calls hook = None"

text \<open>
  What holds of the maps whatever the hooks do: channels exist only with a truthy Echo
  instance, and a ready topic, a queue and (in the presence adapter) a roster exist only for
  a topic with a channel.
\<close>

definition bound_inv :: "'a LaravelEchoAdapter_scheme \<Rightarrow> bool" where
  "bound_inv s \<longleftrightarrow>
     (truthy (echo s) \<or> channels s = []) \<and>
     (\<forall>T. T \<in> readyChannels s \<longrightarrow> T \<in> bound s) \<and>
     (\<forall>T q. messageQueue s T = Some q \<longrightarrow> T \<in> bound s)"

definition presence_bound_inv :: "LaravelEchoPresenceAdapter \<Rightarrow> bool" where
  "presence_bound_inv s \<longleftrightarrow>
     bound_inv s \<and> (\<forall>T r. presenceMembers s T = Some r \<longrightarrow> T \<in> bound s)"

text \<open>
  The invariant of the readiness gate: channels exist only with a truthy Echo instance,
  a ready topic has a channel, and a queue exists only for a topic that has a channel and
  is not ready. For the presence adapter, a roster exists only for a topic with a channel.
\<close>

definition gate_inv :: "'a LaravelEchoAdapter_scheme \<Rightarrow> bool" where
  "gate_inv s \<longleftrightarrow>
     (truthy (echo s) \<or> channels s = []) \<and>
     (\<forall>T. T \<in> readyChannels s \<longrightarrow> T \<in> bound s) \<and>
     (\<forall>T q. messageQueue s T = Some q \<longrightarrow> T \<in> bound s \<and> T \<notin> readyChannels s)"

definition roster_inv :: "LaravelEchoPresenceAdapter \<Rightarrow> bool" where
  "roster_inv s \<longleftrightarrow> gate_inv s \<and> (\<forall>T r. presenceMembers s T = Some r \<longrightarrow> T \<in> bound s)"

text \<open>
  The presence adapter keeps the invariant of the gate as long as the hook \<^verbatim>\<open>onSubscribed\<close>
  is one that returns; an event keeps it so unless it wires a hook that does not.
\<close>

definition hook_inv :: "LaravelEchoPresenceAdapter \<Rightarrow> bool" where
  "hook_inv s \<longleftrightarrow> roster_inv s \<and> returns (onSubscribed (callbacks s))"

fun wires_returning :: "presence_event \<Rightarrow> bool" where
  "wires_returning (SetOnSubscribed cb) = returns cb"
| "wires_returning ev = True"

text \<open>
  The events that leave the channel of the topic \<open>T\<close> in place and are not its ready
  signal; the data published on \<open>T\<close> by a sequence of events, in their order; and the
  data whispered on a channel according to a trace, in their order.
\<close>

fun keeps :: "topic \<Rightarrow> event \<Rightarrow> bool" where
  "keeps T Disconnect = False"
| "keeps T Destroy = False"
| "keeps T (Unsubscribe topics) = (T \<notin> set topics)"
| "keeps T (ChannelSubscribed T') = (T' \<noteq> T)"
| "keeps T ev = True"

fun published :: "topic \<Rightarrow> event list \<Rightarrow> jsval list" where
  "published T [] = []"
| "published T (Publish T' d # evs) = (if T' = T then d # published T evs else published T evs)"
| "published T (ev # evs) = published T evs"

fun presence_keeps :: "topic \<Rightarrow> presence_event \<Rightarrow> bool" where
  "presence_keeps T (Common ev) = keeps T ev"
| "presence_keeps T ev = True"

fun presence_published :: "topic \<Rightarrow> presence_event list \<Rightarrow> jsval list" where
  "presence_published T [] = []"
| "presence_published T (Common (Publish T' d) # evs) =
     (if T' = T then d # presence_published T evs else presence_published T evs)"
| "presence_published T (ev # evs) = presence_published T evs"

fun whispers_on :: "channel \<Rightarrow> effect list \<Rightarrow> jsval list" where
  "whispers_on c [] = []"
| "whispers_on c (Whisper c' d # es) = (if c' = c then d # whispers_on c es else whispers_on c es)"
| "whispers_on c (e # es) = whispers_on c es"

text \<open>
  The topic \<open>T\<close> waits for its ready signal: it has a channel and is not ready, \<open>q\<close> is its
  queue, and \<open>w\<close> is what has been whispered on its channel.
\<close>

definition waiting :: "topic \<Rightarrow> jsval list \<Rightarrow> jsval list \<Rightarrow> 'a LaravelEchoAdapter_scheme \<Rightarrow> bool" where
  "waiting T q w s \<longleftrightarrow>
     names_ok s \<and> T \<in> bound s \<and> T \<notin> readyChannels s \<and> queuedMessages T s = q \<and>
     whispers_on (getChannelName T) (trace s) = w"

text \<open>The runtime runs every pending timer, the oldest first.\<close>

definition all_timers_fire :: "'a SignalingAdapter_scheme \<Rightarrow> 'a SignalingAdapter_scheme" where
  "all_timers_fire s = (timer_fires ^^ length (timers s)) s"

section \<open>Example states\<close>

text \<open>
  An adapter of each kind after \<^verbatim>\<open>connect('')\<close> and \<^verbatim>\<open>subscribe(['room1'])\<close>; the presence
  adapter is built with the hooks \<^verbatim>\<open>onError\<close>, \<^verbatim>\<open>onSubscribed\<close> and \<^verbatim>\<open>onLeaving\<close> wired.
\<close>

definition example_echo :: jsval where
  "example_echo = JObj [(''options'', JObj [])]"

definition example_callbacks :: jsval where
  "example_callbacks = JObj [(''onError'', JFun 1), (''onSubscribed'', JFun 2), (''onLeaving'', JFun 3)]"

definition echo_room1 :: LaravelEchoAdapter where
  "echo_room1 = echo_subscribe [''room1''] (connect [] (LaravelEchoAdapter_new example_echo))"

definition presence_fresh :: LaravelEchoPresenceAdapter where
  "presence_fresh =
     \<lparr>connected = False, observers = (\<lambda>name. []), timers = [], trace = [],
      echo = example_echo, channels = [], readyChannels = {},
      messageQueue = Map.empty, shouldConnect = False,
      presenceMembers = Map.empty,
      callbacks = \<lparr>onHere = JNull, onJoining = JNull, onLeaving = JFun 3,
                   onError = JFun 1, onSubscribed = JFun 2\<rparr>\<rparr>"

definition presence_room1 :: LaravelEchoPresenceAdapter where
  "presence_room1 = presence_subscribe [''room1''] (connect [] presence_fresh)"

text \<open>
  The presence adapter that \<^verbatim>\<open>new LaravelEchoPresenceAdapter(echo, { onSubscribed: h })\<close>
  builds for a truthy value \<open>h\<close>: no other hook is wired.
\<close>

definition presence_hook :: "jsval \<Rightarrow> LaravelEchoPresenceAdapter" where
  "presence_hook h =
     \<lparr>connected = False, observers = (\<lambda>name. []), timers = [], trace = [],
      echo = example_echo, channels = [], readyChannels = {},
      messageQueue = Map.empty, shouldConnect = False,
      presenceMembers = Map.empty,
      callbacks = \<lparr>onHere = JNull, onJoining = JNull, onLeaving = JNull,
                   onError = JNull, onSubscribed = h\<rparr>\<rparr>"

definition alice :: PresenceChannelMember where
  "alice = \<lparr>id' = NumId 1, info = JStr ''alice''\<rparr>"

definition bob :: PresenceChannelMember where
  "bob = \<lparr>id' = NumId 2, info = JStr ''bob''\<rparr>"

definition carol :: PresenceChannelMember where
  "carol = \<lparr>id' = NumId 3, info = JStr ''carol''\<rparr>"

section \<open>The readiness gate: an invariant of every run\<close>

lemma bound_map_of: "map_of (channels s) T = None \<longleftrightarrow> T \<notin> bound s"
  by (simp add: bound_def map_of_eq_None_iff)

lemma map_of_Some_fst: "map_of al k = Some v \<Longrightarrow> k \<in> fst ` set al"
  by (metis map_of_eq_None_iff option.distinct(1))

lemma bound_Some: "map_of (channels s) T = Some c \<Longrightarrow> T \<in> bound s"
  unfolding bound_def by (rule map_of_Some_fst)

lemma bound_delete: "fst ` set (AList.delete k al) = fst ` set al - {k}"
  by (auto simp: AList.delete_eq image_iff)

lemma fold_log_trace: "fold (\<lambda>d. log (g d)) ds s = s\<lparr>trace := trace s @ map g ds\<rparr>"
  by (induction ds arbitrary: s) (simp_all add: log_def)

lemma flush_eq: "flush T c s = s\<lparr>trace := trace s @ map (Whisper c) (queuedMessages T s)\<rparr>"
  by (simp add: flush_def fold_log_trace)

lemma gate_inv_trace [simp]: "gate_inv (s\<lparr>trace := t\<rparr>) = gate_inv s"
  by (simp add: gate_inv_def bound_def)

lemma gate_inv_new: "gate_inv (LaravelEchoAdapter_new e)"
  by (simp add: gate_inv_def bound_def LaravelEchoAdapter_new_def)

lemma gate_inv_connect: "gate_inv s \<Longrightarrow> gate_inv (connect u s)"
  by (simp add: gate_inv_def bound_def connect_def setTimeout_def)

lemma gate_inv_on: "gate_inv s \<Longrightarrow> gate_inv (on name f s)"
  by (simp add: gate_inv_def bound_def on_def)

lemma gate_inv_emit: "gate_inv s \<Longrightarrow> gate_inv (emit name args s)"
  by (simp add: emit_def)

lemma gate_inv_timer_fires: "gate_inv s \<Longrightarrow> gate_inv (timer_fires s)"
proof (cases "timers s")
  case Nil
  then show "gate_inv s \<Longrightarrow> gate_inv (timer_fires s)" by (simp add: timer_fires_def)
next
  case (Cons t ts)
  assume "gate_inv s"
  then have "gate_inv (s\<lparr>timers := ts\<rparr>)" by (simp add: gate_inv_def bound_def)
  then show "gate_inv (timer_fires s)"
    using Cons by (cases t) (simp add: timer_fires_def gate_inv_emit)
qed

lemma gate_inv_publish: "gate_inv s \<Longrightarrow> gate_inv (publish T d s)"
  by (auto simp: gate_inv_def bound_def publish_def log_def
      split: option.splits dest: map_of_Some_fst)

lemma gate_inv_subscribe_topic:
  "truthy (echo s) \<Longrightarrow> gate_inv s \<Longrightarrow>
   gate_inv (echo_subscribe_topic T s) \<and> truthy (echo (echo_subscribe_topic T s))"
  by (auto simp: gate_inv_def bound_def echo_subscribe_topic_def log_def Let_def dom_update
      map_of_eq_None_iff)

lemma gate_inv_subscribe_fold:
  "truthy (echo s) \<Longrightarrow> gate_inv s \<Longrightarrow> gate_inv (fold echo_subscribe_topic ts s)"
  by (induction ts arbitrary: s) (simp_all add: gate_inv_subscribe_topic)

lemma gate_inv_echo_subscribe: "gate_inv s \<Longrightarrow> gate_inv (echo_subscribe ts s)"
  by (simp add: echo_subscribe_def gate_inv_subscribe_fold)

lemma gate_inv_unsubscribe_topic:
  "gate_inv s \<Longrightarrow> echo_unsubscribe_topic T s = Inr s' \<Longrightarrow> gate_inv s'"
  by (auto simp: gate_inv_def bound_def echo_unsubscribe_topic_def echo_leave_def log_def
      bound_delete split: option.splits if_splits)

lemma forEach_preserves:
  assumes step: "\<And>x s s'. P s \<Longrightarrow> f x s = Inr s' \<Longrightarrow> P s'"
  shows "P s \<Longrightarrow> forEach f xs s = Inr s' \<Longrightarrow> P s'"
proof (induction xs arbitrary: s)
  case Nil
  then show ?case by simp
next
  case (Cons x xs)
  then show ?case by (auto split: sum.splits dest: step)
qed

lemma gate_inv_echo_unsubscribe:
  "gate_inv s \<Longrightarrow> echo_unsubscribe ts s = Inr s' \<Longrightarrow> gate_inv s'"
  unfolding echo_unsubscribe_def
  by (rule forEach_preserves [where P = gate_inv and f = echo_unsubscribe_topic])
     (auto intro: gate_inv_unsubscribe_topic)

lemma gate_inv_on_subscribed:
  "T \<in> bound s \<Longrightarrow> gate_inv s \<Longrightarrow> gate_inv (echo_on_subscribed T c s)"
  by (auto simp: gate_inv_def bound_def echo_on_subscribed_def flush_eq Let_def)

lemma gate_inv_echo_on_error: "gate_inv s \<Longrightarrow> gate_inv (echo_on_error cn err s)"
  by (simp add: echo_on_error_def log_def)

lemma gate_inv_on_listenForWhisper: "gate_inv s \<Longrightarrow> gate_inv (on_listenForWhisper T ev s)"
  by (simp add: on_listenForWhisper_def emit_def)

lemma gate_inv_on_listen: "gate_inv s \<Longrightarrow> on_listen T ev s = Inr s' \<Longrightarrow> gate_inv s'"
  by (auto simp: on_listen_def emit_def split: sum.splits)

lemmas gate_inv_handlers = gate_inv_echo_on_error gate_inv_on_listenForWhisper gate_inv_on_listen

lemma leave_all:
  "truthy (echo s) \<or> al = [] \<Longrightarrow>
   forEach (\<lambda>(topic, channel). echo_leave (getChannelName topic)) al s =
     Inr (s\<lparr>trace := trace s @ map (\<lambda>(topic, channel). EchoLeave (getChannelName topic)) al\<rparr>)"
proof (induction al arbitrary: s)
  case Nil
  then show ?case by simp
next
  case (Cons a al)
  obtain topic channel where a: "a = (topic, channel)" by (cases a)
  from Cons.prems have t: "truthy (echo s)" by simp
  let ?s1 = "log (EchoLeave (getChannelName topic)) s"
  have "truthy (echo ?s1) \<or> al = []" using t by (simp add: log_def)
  from Cons.IH [OF this] show ?case
    using t by (simp add: a echo_leave_def) (simp add: log_def)
qed

lemma echo_disconnect_ok:
  assumes "truthy (echo s) \<or> channels s = []"
  shows "\<exists>s'. echo_disconnect s = Inr s' \<and> \<not> connected s' \<and> \<not> shouldConnect s' \<and>
           channels s' = [] \<and> readyChannels s' = {} \<and> messageQueue s' = Map.empty \<and>
           echo s' = echo s"
proof -
  let ?s1 = "s\<lparr>shouldConnect := False, connected := False\<rparr>"
  have "truthy (echo ?s1) \<or> channels ?s1 = []" using assms by simp
  from leave_all [OF this] show ?thesis
    by (simp add: echo_disconnect_def Let_def emit_def)
qed

lemma echo_destroy_ok:
  assumes "truthy (echo s) \<or> channels s = []"
  shows "\<exists>s'. echo_destroy s = Inr s' \<and> \<not> connected s' \<and> \<not> shouldConnect s' \<and>
           channels s' = [] \<and> readyChannels s' = {} \<and> messageQueue s' = Map.empty \<and>
           echo s' = echo s"
proof -
  from echo_disconnect_ok [OF assms] obtain s1 where
    d: "echo_disconnect s = Inr s1" and
    p: "\<not> connected s1" "\<not> shouldConnect s1" "channels s1 = []" "readyChannels s1 = {}"
       "messageQueue s1 = Map.empty" "echo s1 = echo s"
    by blast
  show ?thesis
    using p by (simp add: echo_destroy_def d SignalingAdapter_destroy_def Observable_destroy_def)
qed

lemma gate_inv_cleared:
  "channels s = [] \<Longrightarrow> readyChannels s = {} \<Longrightarrow> messageQueue s = Map.empty \<Longrightarrow> gate_inv s"
  by (simp add: gate_inv_def bound_def)

lemma gate_inv_echo_disconnect: "gate_inv s \<Longrightarrow> echo_disconnect s = Inr s' \<Longrightarrow> gate_inv s'"
proof -
  assume i: "gate_inv s" and d: "echo_disconnect s = Inr s'"
  from i have "truthy (echo s) \<or> channels s = []" by (simp add: gate_inv_def)
  from echo_disconnect_ok [OF this] d show "gate_inv s'" by (auto intro: gate_inv_cleared)
qed

lemma gate_inv_echo_destroy: "gate_inv s \<Longrightarrow> echo_destroy s = Inr s' \<Longrightarrow> gate_inv s'"
proof -
  assume i: "gate_inv s" and d: "echo_destroy s = Inr s'"
  from i have "truthy (echo s) \<or> channels s = []" by (simp add: gate_inv_def)
  from echo_destroy_ok [OF this] d show "gate_inv s'" by (auto intro: gate_inv_cleared)
qed

lemma gate_inv_echo_step: "gate_inv s \<Longrightarrow> echo_step ev s = Inr s' \<Longrightarrow> gate_inv s'"
proof (cases ev)
  case (ChannelSubscribed T)
  assume "gate_inv s" "echo_step ev s = Inr s'"
  then show "gate_inv s'"
    using ChannelSubscribed
    by (auto split: option.splits intro: gate_inv_on_subscribed bound_Some)
qed (auto split: option.splits
      intro: gate_inv_connect gate_inv_echo_disconnect gate_inv_echo_subscribe
             gate_inv_echo_unsubscribe gate_inv_publish gate_inv_echo_destroy gate_inv_on
             gate_inv_timer_fires gate_inv_handlers)

lemma gate_inv_echo_run:
  "gate_inv s \<Longrightarrow> echo_run evs s = Inr s' \<Longrightarrow> gate_inv s'"
  unfolding echo_run_def
  by (rule forEach_preserves [where P = gate_inv and f = echo_step])
     (auto intro: gate_inv_echo_step)

lemma left_forEach_Nil: "left (forEach f [] s) = s"
  by simp

subsection \<open>Turns that throw\<close>

text \<open>
  In a state that satisfies the invariant no method of \<^verbatim>\<open>LaravelEchoAdapter\<close> throws: the
  only turn that can is the handler of \<^verbatim>\<open>listen\<close>, on an event that is \<^verbatim>\<open>null\<close> or
  \<^verbatim>\<open>undefined\<close>, and it leaves the state as it was. So the invariant holds in every state
  that is reached, with or without exceptions on the way. A run that ends without an
  exception ends in the state that is reached.
\<close>

lemma echo_unsubscribe_topic_ok:
  "gate_inv s \<Longrightarrow> \<exists>s'. echo_unsubscribe_topic T s = Inr s'"
  by (cases "map_of (channels s) T")
     (auto simp: echo_unsubscribe_topic_def echo_leave_def gate_inv_def)

lemma forEach_succeeds:
  assumes ok: "\<And>x s. P s \<Longrightarrow> \<exists>s'. f x s = Inr s'"
    and keep: "\<And>x s s'. P s \<Longrightarrow> f x s = Inr s' \<Longrightarrow> P s'"
  shows "P s \<Longrightarrow> \<exists>s'. forEach f xs s = Inr s'"
proof (induction xs arbitrary: s)
  case Nil
  then show ?case by simp
next
  case (Cons x xs)
  from ok [OF Cons.prems] obtain s1 where s1: "f x s = Inr s1" by blast
  with Cons.prems have "P s1" by (blast intro: keep)
  from Cons.IH [OF this] show ?case by (simp add: s1)
qed

lemma echo_unsubscribe_ok: "gate_inv s \<Longrightarrow> \<exists>s'. echo_unsubscribe ts s = Inr s'"
  unfolding echo_unsubscribe_def
  by (rule forEach_succeeds [where P = gate_inv])
     (auto intro: echo_unsubscribe_topic_ok gate_inv_unsubscribe_topic)

lemma on_listen_throws:
  "on_listen T ev s = Inl x \<longleftrightarrow> (ev = JNull \<or> ev = JUndefined) \<and> x = (TypeError, s)"
  by (auto simp: on_listen_def get_prop_def)

lemma echo_step_throws:
  assumes "gate_inv s" and "echo_step ev s = Inl x"
  shows "\<exists>T v. ev = ChannelListen T v \<and> (v = JNull \<or> v = JUndefined) \<and> x = (TypeError, s)"
proof (cases ev)
  case Disconnect
  with assms echo_disconnect_ok [of s] show ?thesis by (auto simp: gate_inv_def)
next
  case (Unsubscribe ts)
  with assms echo_unsubscribe_ok [of s ts] show ?thesis by auto
next
  case Destroy
  with assms echo_destroy_ok [of s] show ?thesis by (auto simp: gate_inv_def)
next
  case (ChannelListen T v)
  with assms show ?thesis by (auto simp: on_listen_throws split: option.splits)
qed (insert assms, auto split: option.splits)

lemma gate_inv_echo_left: "gate_inv s \<Longrightarrow> gate_inv (left (echo_step ev s))"
proof (cases "echo_step ev s")
  case (Inl x)
  assume "gate_inv s"
  with Inl echo_step_throws [of s ev x] show ?thesis by auto
next
  case (Inr s')
  assume "gate_inv s"
  with Inr show ?thesis by (auto intro: gate_inv_echo_step)
qed

lemma gate_inv_echo_reach: "gate_inv s \<Longrightarrow> gate_inv (echo_reach evs s)"
  unfolding echo_reach_def
  by (induction evs arbitrary: s) (simp_all add: gate_inv_echo_left)

lemma forEach_Inr_fold:
  "forEach f xs s = Inr s' \<Longrightarrow> fold (\<lambda>x s. left (f x s)) xs s = s'"
  by (induction xs arbitrary: s) (auto split: sum.splits)


lemma presence_run_reach: "presence_run evs s = Inr s' \<Longrightarrow> presence_reach evs s = s'"
  unfolding presence_run_def presence_reach_def by (rule forEach_Inr_fold)

lemma echo_reach_append: "echo_reach (evs @ evs') s = echo_reach evs' (echo_reach evs s)"
  by (simp add: echo_reach_def)

lemma presence_reach_append:
  "presence_reach (evs @ evs') s = presence_reach evs' (presence_reach evs s)"
  by (simp add: presence_reach_def)

subsection \<open>Loops that stop at an exception, and leaving every channel\<close>

lemma forEach_left_preserves:
  assumes step: "\<And>x s. P s \<Longrightarrow> P (left (f x s))"
  shows "P s \<Longrightarrow> P (left (forEach f xs s))"
proof (induction xs arbitrary: s)
  case Nil
  then show ?case by simp
next
  case (Cons x xs)
  from step [OF Cons.prems, of x] have p: "P (left (f x s))" .
  show ?case
  proof (cases "f x s")
    case (Inl a)
    with p show ?thesis by simp
  next
    case (Inr s1)
    with p have "P s1" by simp
    from Cons.IH [OF this] show ?thesis by (simp add: Inr)
  qed
qed

lemma left_ends_with_call [simp]: "left (ends_with_call h s) = s"
  by (simp add: ends_with_call_def after_call_def split: option.splits)

lemma presence_disconnect_ok:
  assumes "truthy (echo s) \<or> channels s = []"
  shows "\<exists>s'. presence_disconnect s = Inr s' \<and> \<not> connected s' \<and> \<not> shouldConnect s' \<and>
           channels s' = [] \<and> readyChannels s' = {} \<and> messageQueue s' = Map.empty \<and>
           presenceMembers s' = Map.empty \<and> echo s' = echo s \<and> callbacks s' = callbacks s"
proof -
  let ?s1 = "s\<lparr>shouldConnect := False, connected := False\<rparr>"
  have "truthy (echo ?s1) \<or> channels ?s1 = []" using assms by simp
  from leave_all [OF this] show ?thesis
    by (simp add: presence_disconnect_def Let_def emit_def)
qed

lemma presence_destroy_ok:
  assumes "truthy (echo s) \<or> channels s = []"
  shows "\<exists>s'. presence_destroy s = Inr s' \<and> \<not> connected s' \<and> \<not> shouldConnect s' \<and>
           channels s' = [] \<and> readyChannels s' = {} \<and> messageQueue s' = Map.empty \<and>
           presenceMembers s' = Map.empty \<and> echo s' = echo s \<and> callbacks s' = callbacks s"
proof -
  from presence_disconnect_ok [OF assms] obtain s1 where
    d: "presence_disconnect s = Inr s1" and
    p: "\<not> connected s1" "\<not> shouldConnect s1" "channels s1 = []" "readyChannels s1 = {}"
       "messageQueue s1 = Map.empty" "presenceMembers s1 = Map.empty" "echo s1 = echo s"
       "callbacks s1 = callbacks s"
    by blast
  show ?thesis
    using p by (simp add: presence_destroy_def d SignalingAdapter_destroy_def Observable_destroy_def)
qed

subsection \<open>What the presence adapter keeps whatever the hooks do\<close>

lemma presence_bound_inv_connect: "presence_bound_inv s \<Longrightarrow> presence_bound_inv (connect u s)"
  by (simp add: presence_bound_inv_def bound_inv_def bound_def connect_def setTimeout_def)

lemma presence_bound_inv_on: "presence_bound_inv s \<Longrightarrow> presence_bound_inv (on name f s)"
  by (simp add: presence_bound_inv_def bound_inv_def bound_def on_def)

lemma presence_bound_inv_emit: "presence_bound_inv s \<Longrightarrow> presence_bound_inv (emit name args s)"
  by (simp add: presence_bound_inv_def bound_inv_def bound_def emit_def)

lemma presence_bound_inv_timer_fires: "presence_bound_inv s \<Longrightarrow> presence_bound_inv (timer_fires s)"
proof (cases "timers s")
  case Nil
  then show "presence_bound_inv s \<Longrightarrow> presence_bound_inv (timer_fires s)" by (simp add: timer_fires_def)
next
  case (Cons t ts)
  assume "presence_bound_inv s"
  then have "presence_bound_inv (s\<lparr>timers := ts\<rparr>)" by (simp add: presence_bound_inv_def bound_inv_def bound_def)
  then show "presence_bound_inv (timer_fires s)"
    using Cons by (cases t) (simp add: timer_fires_def presence_bound_inv_emit)
qed

lemma presence_bound_inv_publish: "presence_bound_inv s \<Longrightarrow> presence_bound_inv (publish T d s)"
  by (auto simp: presence_bound_inv_def bound_inv_def bound_def publish_def log_def split: option.splits dest: map_of_Some_fst)

lemma presence_bound_inv_on_listen: "presence_bound_inv s \<Longrightarrow> presence_bound_inv (left (on_listen T v s))"
  by (auto simp: presence_bound_inv_def bound_inv_def bound_def on_listen_def emit_def split: sum.splits)

lemma presence_bound_inv_on_listenForWhisper: "presence_bound_inv s \<Longrightarrow> presence_bound_inv (on_listenForWhisper T v s)"
  by (simp add: presence_bound_inv_def bound_inv_def bound_def on_listenForWhisper_def emit_def)

lemma presence_bound_inv_subscribe_topic:
  "truthy (echo s) \<Longrightarrow> presence_bound_inv s \<Longrightarrow>
   presence_bound_inv (presence_subscribe_topic T s) \<and> truthy (echo (presence_subscribe_topic T s))"
  by (auto simp: presence_bound_inv_def bound_inv_def bound_def presence_subscribe_topic_def log_def Let_def dom_update map_of_eq_None_iff)

lemma presence_bound_inv_subscribe_fold:
  "truthy (echo s) \<Longrightarrow> presence_bound_inv s \<Longrightarrow> presence_bound_inv (fold presence_subscribe_topic ts s)"
  by (induction ts arbitrary: s) (simp_all add: presence_bound_inv_subscribe_topic)

lemma presence_bound_inv_subscribe: "presence_bound_inv s \<Longrightarrow> presence_bound_inv (presence_subscribe ts s)"
  by (simp add: presence_subscribe_def presence_bound_inv_subscribe_fold)

lemma presence_bound_inv_unsubscribe_topic: "presence_bound_inv s \<Longrightarrow> presence_bound_inv (left (presence_unsubscribe_topic T s))"
  by (auto simp: presence_bound_inv_def bound_inv_def bound_def presence_unsubscribe_topic_def echo_leave_def log_def bound_delete
      split: option.splits if_splits)

lemma presence_bound_inv_unsubscribe: "presence_bound_inv s \<Longrightarrow> presence_bound_inv (left (presence_unsubscribe ts s))"
  unfolding presence_unsubscribe_def
  by (rule forEach_left_preserves [where P = presence_bound_inv]) (rule presence_bound_inv_unsubscribe_topic)

lemma presence_bound_inv_echo_ok: "presence_bound_inv s \<Longrightarrow> truthy (echo s) \<or> channels s = []"
  by (simp add: presence_bound_inv_def bound_inv_def bound_def)

lemma presence_bound_inv_cleared:
  "presence_bound_inv s \<Longrightarrow> channels s' = [] \<Longrightarrow> readyChannels s' = {} \<Longrightarrow> messageQueue s' = Map.empty \<Longrightarrow>
   presenceMembers s' = Map.empty \<Longrightarrow> callbacks s' = callbacks s \<Longrightarrow> presence_bound_inv s'"
  by (simp add: presence_bound_inv_def bound_inv_def bound_def)

lemma presence_bound_inv_disconnect: "presence_bound_inv s \<Longrightarrow> presence_bound_inv (left (presence_disconnect s))"
proof -
  assume i: "presence_bound_inv s"
  from presence_disconnect_ok [OF presence_bound_inv_echo_ok [OF i]] obtain s' where
    "presence_disconnect s = Inr s'" "channels s' = []" "readyChannels s' = {}"
    "messageQueue s' = Map.empty" "presenceMembers s' = Map.empty" "callbacks s' = callbacks s"
    by blast
  then show ?thesis using presence_bound_inv_cleared [OF i, of s'] by simp
qed

lemma presence_bound_inv_destroy: "presence_bound_inv s \<Longrightarrow> presence_bound_inv (left (presence_destroy s))"
proof -
  assume i: "presence_bound_inv s"
  from presence_destroy_ok [OF presence_bound_inv_echo_ok [OF i]] obtain s' where
    "presence_destroy s = Inr s'" "channels s' = []" "readyChannels s' = {}"
    "messageQueue s' = Map.empty" "presenceMembers s' = Map.empty" "callbacks s' = callbacks s"
    by blast
  then show ?thesis using presence_bound_inv_cleared [OF i, of s'] by simp
qed

lemma presence_bound_inv_on_subscribed:
  "T \<in> bound s \<Longrightarrow> presence_bound_inv s \<Longrightarrow> presence_bound_inv (left (presence_on_subscribed T cn c s))"
  by (auto simp: presence_bound_inv_def bound_inv_def bound_def presence_on_subscribed_def flush_eq log_def Let_def after_call_def
      returns_def split: option.splits)

lemma presence_bound_inv_roster_handlers:
  "T \<in> bound s \<Longrightarrow> presence_bound_inv s \<Longrightarrow> presence_bound_inv (presence_on_here T ms s)"
  "T \<in> bound s \<Longrightarrow> presence_bound_inv s \<Longrightarrow> presence_bound_inv (presence_on_joining T m s)"
  "T \<in> bound s \<Longrightarrow> presence_bound_inv s \<Longrightarrow> presence_bound_inv (presence_on_leaving T m s)"
  by (auto simp: presence_bound_inv_def bound_inv_def bound_def presence_on_here_def presence_on_joining_def presence_on_leaving_def
      log_def Let_def)

lemma presence_bound_inv_on_error: "presence_bound_inv s \<Longrightarrow> presence_bound_inv (presence_on_error cn err s)"
  by (auto simp: presence_bound_inv_def bound_inv_def bound_def presence_on_error_def log_def Let_def)

lemma presence_bound_inv_setters:
  "presence_bound_inv s \<Longrightarrow> presence_bound_inv (presence_onHere cb s)"
  "presence_bound_inv s \<Longrightarrow> presence_bound_inv (presence_onJoining cb s)"
  "presence_bound_inv s \<Longrightarrow> presence_bound_inv (presence_onLeaving cb s)"
  "presence_bound_inv s \<Longrightarrow> presence_bound_inv (presence_onError cb s)"
  by (simp_all add: presence_bound_inv_def bound_inv_def bound_def presence_onHere_def presence_onJoining_def presence_onLeaving_def
      presence_onError_def)

lemma presence_bound_inv_common_step:
  "presence_bound_inv s \<Longrightarrow> presence_bound_inv (left (presence_step (Common ev) s))"
  by (cases ev)
     (auto split: option.splits
       intro: presence_bound_inv_connect presence_bound_inv_on presence_bound_inv_timer_fires presence_bound_inv_publish presence_bound_inv_on_listen
         presence_bound_inv_on_listenForWhisper presence_bound_inv_subscribe presence_bound_inv_unsubscribe presence_bound_inv_disconnect presence_bound_inv_destroy
         presence_bound_inv_on_subscribed presence_bound_inv_on_error bound_Some)

lemma presence_bound_inv_setOnSubscribed:
  "presence_bound_inv s \<Longrightarrow> presence_bound_inv (presence_onSubscribed cb s)"
  by (simp add: presence_bound_inv_def bound_inv_def bound_def presence_onSubscribed_def)

lemma presence_bound_inv_step:
  "presence_bound_inv s \<Longrightarrow> presence_bound_inv (left (presence_step ev s))"
  by (cases ev)
     (auto split: option.splits
       intro: presence_bound_inv_common_step presence_bound_inv_setters
         presence_bound_inv_setOnSubscribed presence_bound_inv_roster_handlers bound_Some)

lemma presence_bound_inv_reach:
  "presence_bound_inv s \<Longrightarrow> presence_bound_inv (presence_reach evs s)"
  unfolding presence_reach_def
  by (induction evs arbitrary: s) (simp_all add: presence_bound_inv_step)

lemma presence_bound_inv_new:
  "LaravelEchoPresenceAdapter_new e cbs = Inr s \<Longrightarrow> presence_bound_inv s"
  by (auto simp: LaravelEchoPresenceAdapter_new_def presence_bound_inv_def bound_inv_def bound_def
      Let_def split: sum.splits)

subsection \<open>The presence adapter with hooks that return\<close>

lemma hook_inv_connect: "hook_inv s \<Longrightarrow> hook_inv (connect u s)"
  by (simp add: hook_inv_def roster_inv_def gate_inv_def bound_def connect_def setTimeout_def)

lemma hook_inv_on: "hook_inv s \<Longrightarrow> hook_inv (on name f s)"
  by (simp add: hook_inv_def roster_inv_def gate_inv_def bound_def on_def)

lemma hook_inv_emit: "hook_inv s \<Longrightarrow> hook_inv (emit name args s)"
  by (simp add: hook_inv_def roster_inv_def gate_inv_def bound_def emit_def)

lemma hook_inv_timer_fires: "hook_inv s \<Longrightarrow> hook_inv (timer_fires s)"
proof (cases "timers s")
  case Nil
  then show "hook_inv s \<Longrightarrow> hook_inv (timer_fires s)" by (simp add: timer_fires_def)
next
  case (Cons t ts)
  assume "hook_inv s"
  then have "hook_inv (s\<lparr>timers := ts\<rparr>)" by (simp add: hook_inv_def roster_inv_def gate_inv_def bound_def)
  then show "hook_inv (timer_fires s)"
    using Cons by (cases t) (simp add: timer_fires_def hook_inv_emit)
qed

lemma hook_inv_publish: "hook_inv s \<Longrightarrow> hook_inv (publish T d s)"
  by (auto simp: hook_inv_def roster_inv_def gate_inv_def bound_def publish_def log_def split: option.splits dest: map_of_Some_fst)

lemma hook_inv_on_listen: "hook_inv s \<Longrightarrow> hook_inv (left (on_listen T v s))"
  by (auto simp: hook_inv_def roster_inv_def gate_inv_def bound_def on_listen_def emit_def split: sum.splits)

lemma hook_inv_on_listenForWhisper: "hook_inv s \<Longrightarrow> hook_inv (on_listenForWhisper T v s)"
  by (simp add: hook_inv_def roster_inv_def gate_inv_def bound_def on_listenForWhisper_def emit_def)

lemma hook_inv_subscribe_topic:
  "truthy (echo s) \<Longrightarrow> hook_inv s \<Longrightarrow>
   hook_inv (presence_subscribe_topic T s) \<and> truthy (echo (presence_subscribe_topic T s))"
  by (auto simp: hook_inv_def roster_inv_def gate_inv_def bound_def presence_subscribe_topic_def log_def Let_def dom_update map_of_eq_None_iff)

lemma hook_inv_subscribe_fold:
  "truthy (echo s) \<Longrightarrow> hook_inv s \<Longrightarrow> hook_inv (fold presence_subscribe_topic ts s)"
  by (induction ts arbitrary: s) (simp_all add: hook_inv_subscribe_topic)

lemma hook_inv_subscribe: "hook_inv s \<Longrightarrow> hook_inv (presence_subscribe ts s)"
  by (simp add: presence_subscribe_def hook_inv_subscribe_fold)

lemma hook_inv_unsubscribe_topic: "hook_inv s \<Longrightarrow> hook_inv (left (presence_unsubscribe_topic T s))"
  by (auto simp: hook_inv_def roster_inv_def gate_inv_def bound_def presence_unsubscribe_topic_def echo_leave_def log_def bound_delete
      split: option.splits if_splits)

lemma hook_inv_unsubscribe: "hook_inv s \<Longrightarrow> hook_inv (left (presence_unsubscribe ts s))"
  unfolding presence_unsubscribe_def
  by (rule forEach_left_preserves [where P = hook_inv]) (rule hook_inv_unsubscribe_topic)

lemma hook_inv_echo_ok: "hook_inv s \<Longrightarrow> truthy (echo s) \<or> channels s = []"
  by (simp add: hook_inv_def roster_inv_def gate_inv_def bound_def)

lemma hook_inv_cleared:
  "hook_inv s \<Longrightarrow> channels s' = [] \<Longrightarrow> readyChannels s' = {} \<Longrightarrow> messageQueue s' = Map.empty \<Longrightarrow>
   presenceMembers s' = Map.empty \<Longrightarrow> callbacks s' = callbacks s \<Longrightarrow> hook_inv s'"
  by (simp add: hook_inv_def roster_inv_def gate_inv_def bound_def)

lemma hook_inv_disconnect: "hook_inv s \<Longrightarrow> hook_inv (left (presence_disconnect s))"
proof -
  assume i: "hook_inv s"
  from presence_disconnect_ok [OF hook_inv_echo_ok [OF i]] obtain s' where
    "presence_disconnect s = Inr s'" "channels s' = []" "readyChannels s' = {}"
    "messageQueue s' = Map.empty" "presenceMembers s' = Map.empty" "callbacks s' = callbacks s"
    by blast
  then show ?thesis using hook_inv_cleared [OF i, of s'] by simp
qed

lemma hook_inv_destroy: "hook_inv s \<Longrightarrow> hook_inv (left (presence_destroy s))"
proof -
  assume i: "hook_inv s"
  from presence_destroy_ok [OF hook_inv_echo_ok [OF i]] obtain s' where
    "presence_destroy s = Inr s'" "channels s' = []" "readyChannels s' = {}"
    "messageQueue s' = Map.empty" "presenceMembers s' = Map.empty" "callbacks s' = callbacks s"
    by blast
  then show ?thesis using hook_inv_cleared [OF i, of s'] by simp
qed

lemma hook_inv_on_subscribed:
  "T \<in> bound s \<Longrightarrow> hook_inv s \<Longrightarrow> hook_inv (left (presence_on_subscribed T cn c s))"
  by (auto simp: hook_inv_def roster_inv_def gate_inv_def bound_def presence_on_subscribed_def flush_eq log_def Let_def after_call_def
      returns_def split: option.splits)

lemma hook_inv_roster_handlers:
  "T \<in> bound s \<Longrightarrow> hook_inv s \<Longrightarrow> hook_inv (presence_on_here T ms s)"
  "T \<in> bound s \<Longrightarrow> hook_inv s \<Longrightarrow> hook_inv (presence_on_joining T m s)"
  "T \<in> bound s \<Longrightarrow> hook_inv s \<Longrightarrow> hook_inv (presence_on_leaving T m s)"
  by (auto simp: hook_inv_def roster_inv_def gate_inv_def bound_def presence_on_here_def presence_on_joining_def presence_on_leaving_def
      log_def Let_def)

lemma hook_inv_on_error: "hook_inv s \<Longrightarrow> hook_inv (presence_on_error cn err s)"
  by (auto simp: hook_inv_def roster_inv_def gate_inv_def bound_def presence_on_error_def log_def Let_def)

lemma hook_inv_setters:
  "hook_inv s \<Longrightarrow> hook_inv (presence_onHere cb s)"
  "hook_inv s \<Longrightarrow> hook_inv (presence_onJoining cb s)"
  "hook_inv s \<Longrightarrow> hook_inv (presence_onLeaving cb s)"
  "hook_inv s \<Longrightarrow> hook_inv (presence_onError cb s)"
  by (simp_all add: hook_inv_def roster_inv_def gate_inv_def bound_def presence_onHere_def presence_onJoining_def presence_onLeaving_def
      presence_onError_def)

lemma hook_inv_common_step:
  "hook_inv s \<Longrightarrow> hook_inv (left (presence_step (Common ev) s))"
  by (cases ev)
     (auto split: option.splits
       intro: hook_inv_connect hook_inv_on hook_inv_timer_fires hook_inv_publish hook_inv_on_listen
         hook_inv_on_listenForWhisper hook_inv_subscribe hook_inv_unsubscribe hook_inv_disconnect hook_inv_destroy
         hook_inv_on_subscribed hook_inv_on_error bound_Some)

lemma hook_inv_setOnSubscribed:
  "returns cb \<Longrightarrow> hook_inv s \<Longrightarrow> hook_inv (presence_onSubscribed cb s)"
  by (simp add: hook_inv_def roster_inv_def gate_inv_def bound_def presence_onSubscribed_def)

lemma hook_inv_step:
  "wires_returning ev \<Longrightarrow> hook_inv s \<Longrightarrow> hook_inv (left (presence_step ev s))"
  by (cases ev)
     (auto split: option.splits
       intro: hook_inv_common_step hook_inv_setters hook_inv_setOnSubscribed
         hook_inv_roster_handlers bound_Some)

lemma hook_inv_reach:
  "\<forall>ev \<in> set evs. wires_returning ev \<Longrightarrow> hook_inv s \<Longrightarrow> hook_inv (presence_reach evs s)"
  unfolding presence_reach_def
  by (induction evs arbitrary: s) (simp_all add: hook_inv_step)

lemma hook_inv_new:
  "LaravelEchoPresenceAdapter_new e cbs = Inr s \<Longrightarrow> returns (onSubscribed (callbacks s)) \<Longrightarrow>
   hook_inv s"
  by (auto simp: LaravelEchoPresenceAdapter_new_def hook_inv_def roster_inv_def gate_inv_def
      bound_def Let_def split: sum.splits)

subsection \<open>The states an adapter reaches\<close>

lemma echo_reached: "gate_inv (echo_reach evs (LaravelEchoAdapter_new e))"
  by (blast intro: gate_inv_echo_reach gate_inv_new)

lemma presence_reached:
  "LaravelEchoPresenceAdapter_new e cbs = Inr p0 \<Longrightarrow> presence_bound_inv (presence_reach evs p0)"
  by (blast intro: presence_bound_inv_reach presence_bound_inv_new)

lemma presence_reached_returning:
  "LaravelEchoPresenceAdapter_new e cbs = Inr p0 \<Longrightarrow> returns (onSubscribed (callbacks p0)) \<Longrightarrow>
   \<forall>ev \<in> set evs. wires_returning ev \<Longrightarrow> gate_inv (presence_reach evs p0)"
  using hook_inv_reach [of evs p0] hook_inv_new [of e cbs p0]
  by (simp add: hook_inv_def roster_inv_def)

subsection \<open>Unsubscribing\<close>

lemma presence_unsubscribe_topic_unbinds:
  assumes "presence_bound_inv s"
  shows "\<exists>s'. presence_unsubscribe_topic T s = Inr s' \<and> presence_bound_inv s' \<and>
           bound s' = bound s - {T}"
proof (cases "map_of (channels s) T")
  case None
  then have "T \<notin> bound s" by (simp add: bound_map_of)
  with None assms show ?thesis by (simp add: presence_unsubscribe_topic_def)
next
  case (Some c)
  then have "channels s \<noteq> []" by auto
  with assms have e: "truthy (echo s)" by (auto simp: presence_bound_inv_def bound_inv_def)
  have i: "presence_bound_inv (left (presence_unsubscribe_topic T s))"
    using assms by (rule presence_bound_inv_unsubscribe_topic)
  show ?thesis
    using i by (simp add: presence_unsubscribe_topic_def Some echo_leave_def e log_def bound_def bound_delete)
qed

lemma presence_unsubscribe_unbinds:
  "presence_bound_inv s \<Longrightarrow>
   \<exists>s'. presence_unsubscribe ts s = Inr s' \<and> presence_bound_inv s' \<and> bound s' = bound s - set ts"
  unfolding presence_unsubscribe_def
proof (induction ts arbitrary: s)
  case Nil
  then show ?case by simp
next
  case (Cons T ts)
  from presence_unsubscribe_topic_unbinds [OF Cons.prems, of T] obtain s1 where
    s1: "presence_unsubscribe_topic T s = Inr s1" "presence_bound_inv s1" "bound s1 = bound s - {T}"
    by blast
  from Cons.IH [OF s1(2)] obtain s' where
    "forEach presence_unsubscribe_topic ts s1 = Inr s'" "presence_bound_inv s'" "bound s' = bound s1 - set ts"
    by blast
  with s1 show ?case by auto
qed

lemma unbound_no_roster:
  "presence_bound_inv s \<Longrightarrow> T \<notin> bound s \<Longrightarrow> getPresenceMembers T s = []"
  by (cases "presenceMembers s T") (auto simp: presence_bound_inv_def getPresenceMembers_def)

section \<open>Publishing before the channel is ready\<close>

text \<open>
  While a topic waits for its ready signal, every turn that keeps its channel and is not the
  signal leaves it waiting, appends to its queue what the turn publishes on it, and sends
  nothing on its channel. The channels of two topics differ, since the name of a channel
  determines the topic.
\<close>

lemma whispers_on_append:
  "whispers_on c (xs @ ys) = whispers_on c xs @ whispers_on c ys"
  by (induction c xs rule: whispers_on.induct) simp_all

lemma whispers_on_Notify: "whispers_on c (map (\<lambda>f. Notify f name args) fs) = []"
  by (induction fs) simp_all

lemma whispers_on_Whisper_same: "whispers_on c (map (Whisper c) ds) = ds"
  by (induction ds) simp_all

lemma whispers_on_Whisper_other: "c' \<noteq> c \<Longrightarrow> whispers_on c (map (Whisper c') ds) = []"
  by (induction ds) simp_all

lemma getChannelName_inj: "getChannelName a = getChannelName b \<longleftrightarrow> a = b"
  by (simp add: getChannelName_def)

lemma waiting_channel:
  "waiting T q w s \<Longrightarrow> map_of (channels s) T = Some (getChannelName T)"
proof -
  assume a: "waiting T q w s"
  then have "map_of (channels s) T \<noteq> None"
    by (simp add: waiting_def bound_def map_of_eq_None_iff)
  then obtain c where c: "map_of (channels s) T = Some c" by blast
  then have "(T, c) \<in> set (channels s)" by (rule map_of_SomeD)
  with a have "c = getChannelName T" by (simp add: waiting_def names_ok_def)
  with c show ?thesis by simp
qed

lemma other_channel:
  "names_ok s \<Longrightarrow> map_of (channels s) T' = Some c \<Longrightarrow> T' \<noteq> T \<Longrightarrow> c \<noteq> getChannelName T"
proof -
  assume n: "names_ok s" and m: "map_of (channels s) T' = Some c" and d: "T' \<noteq> T"
  from m have "(T', c) \<in> set (channels s)" by (rule map_of_SomeD)
  with n have "c = getChannelName T'" by (simp add: names_ok_def)
  with d show ?thesis by (simp add: getChannelName_inj)
qed

lemma waiting_connect: "waiting T q w s \<Longrightarrow> waiting T q w (connect u s)"
  by (simp add: waiting_def names_ok_def bound_def queuedMessages_def connect_def setTimeout_def)

lemma waiting_on: "waiting T q w s \<Longrightarrow> waiting T q w (on name f s)"
  by (simp add: waiting_def names_ok_def bound_def queuedMessages_def on_def)

lemma waiting_emit: "waiting T q w s \<Longrightarrow> waiting T q w (emit name args s)"
  by (simp add: waiting_def names_ok_def bound_def queuedMessages_def emit_def
      whispers_on_append whispers_on_Notify)

lemma waiting_timer_fires: "waiting T q w s \<Longrightarrow> waiting T q w (timer_fires s)"
proof (cases "timers s")
  case Nil
  then show "waiting T q w s \<Longrightarrow> waiting T q w (timer_fires s)" by (simp add: timer_fires_def)
next
  case (Cons t ts)
  assume "waiting T q w s"
  then have "waiting T q w (s\<lparr>timers := ts\<rparr>)"
    by (simp add: waiting_def names_ok_def bound_def queuedMessages_def)
  then show "waiting T q w (timer_fires s)"
    using Cons by (cases t) (simp add: timer_fires_def waiting_emit)
qed

lemma waiting_publish_same:
  "waiting T q w s \<Longrightarrow> waiting T (q @ [d]) w (publish T d s)"
proof -
  assume a: "waiting T q w s"
  from waiting_channel [OF a] a show ?thesis
    by (simp add: waiting_def names_ok_def bound_def queuedMessages_def publish_def)
qed

lemma waiting_publish_other:
  assumes a: "waiting T q w s" and n: "T' \<noteq> T"
  shows "waiting T q w (publish T' d s)"
proof (cases "map_of (channels s) T'")
  case None
  with a show ?thesis by (simp add: publish_def)
next
  case (Some c)
  from a have "names_ok s" by (simp add: waiting_def)
  from other_channel [OF this Some n] have "c \<noteq> getChannelName T" .
  with a n Some show ?thesis
    by (simp add: waiting_def names_ok_def bound_def queuedMessages_def publish_def log_def
        whispers_on_append)
qed

lemma waiting_on_listen: "waiting T q w s \<Longrightarrow> waiting T q w (left (on_listen T' v s))"
  by (auto simp: on_listen_def split: sum.splits intro: waiting_emit)

lemma waiting_on_listenForWhisper:
  "waiting T q w s \<Longrightarrow> waiting T q w (on_listenForWhisper T' v s)"
  by (simp add: on_listenForWhisper_def waiting_emit)

lemma waiting_log:
  "waiting T q w s \<Longrightarrow> whispers_on (getChannelName T) [e] = [] \<Longrightarrow> waiting T q w (log e s)"
  by (simp add: waiting_def names_ok_def bound_def queuedMessages_def log_def whispers_on_append)

lemma set_update_cases:
  "(a, b) \<in> set (AList.update k v al) \<Longrightarrow> (a, b) = (k, v) \<or> (a, b) \<in> set al"
  by (induction al) (auto split: if_splits)

lemma waiting_echo_leave: "waiting T q w s \<Longrightarrow> waiting T q w (left (echo_leave name s))"
  by (simp add: echo_leave_def waiting_log)

lemma forEach_left_preserves_in:
  assumes step: "\<And>x s. x \<in> set xs \<Longrightarrow> P s \<Longrightarrow> P (left (f x s))"
  shows "P s \<Longrightarrow> P (left (forEach f xs s))"
  using step
proof (induction xs arbitrary: s)
  case Nil
  then show ?case by simp
next
  case (Cons x xs)
  have p: "P (left (f x s))" using Cons.prems by simp
  show ?case
  proof (cases "f x s")
    case (Inl a)
    with p show ?thesis by simp
  next
    case (Inr s1)
    with p have "P s1" by simp
    then have "P (left (forEach f xs s1))" using Cons.prems by (intro Cons.IH) simp_all
    then show ?thesis by (simp add: Inr)
  qed
qed

lemma published_Cons: "published T (ev # evs) = published T [ev] @ published T evs"
  by (cases ev) simp_all

lemma presence_published_Cons:
  "presence_published T (ev # evs) = presence_published T [ev] @ presence_published T evs"
proof (cases ev)
  case (Common c)
  then show ?thesis by (cases c) simp_all
qed simp_all

lemma set_delete_subset: "(a, b) \<in> set (AList.delete k al) \<Longrightarrow> (a, b) \<in> set al"
  by (simp add: AList.delete_eq)

lemma names_ok_shared:
  "names_ok s \<Longrightarrow> names_ok (connect u s)"
  "names_ok s \<Longrightarrow> names_ok (on name f s)"
  "names_ok s \<Longrightarrow> names_ok (emit name args s)"
  "names_ok s \<Longrightarrow> names_ok (publish T d s)"
  "names_ok s \<Longrightarrow> names_ok (on_listenForWhisper T v s)"
  "names_ok s \<Longrightarrow> names_ok (log e s)"
  by (simp_all add: names_ok_def connect_def setTimeout_def on_def emit_def publish_def log_def
      on_listenForWhisper_def split: option.splits)

lemma names_ok_timer_fires: "names_ok s \<Longrightarrow> names_ok (timer_fires s)"
proof (cases "timers s")
  case Nil
  then show "names_ok s \<Longrightarrow> names_ok (timer_fires s)" by (simp add: timer_fires_def)
next
  case (Cons t ts)
  assume "names_ok s"
  then have "names_ok (s\<lparr>timers := ts\<rparr>)" by (simp add: names_ok_def)
  then show "names_ok (timer_fires s)"
    using Cons by (cases t) (simp add: timer_fires_def names_ok_shared)
qed

lemma names_ok_on_listen: "names_ok s \<Longrightarrow> names_ok (left (on_listen T v s))"
  by (auto simp: on_listen_def split: sum.splits intro: names_ok_shared)

lemma names_ok_echo_leave: "names_ok s \<Longrightarrow> names_ok (left (echo_leave name s))"
  by (simp add: echo_leave_def names_ok_shared)

lemma names_ok_leave_all:
  "names_ok s \<Longrightarrow>
   names_ok (left (forEach (\<lambda>(topic, channel). echo_leave (getChannelName topic)) al s))"
  by (rule forEach_left_preserves [where P = names_ok]) (auto intro: names_ok_echo_leave)

lemma channels_leave_all:
  "channels (left (forEach (\<lambda>(topic, channel). echo_leave (getChannelName topic)) al s)) = channels s"
  by (rule forEach_left_preserves [where P = "\<lambda>x. channels x = channels s"])
     (auto simp: echo_leave_def log_def)

lemma names_ok_echo_subscribe_topic: "names_ok s \<Longrightarrow> names_ok (echo_subscribe_topic T s)"
  by (auto simp: names_ok_def echo_subscribe_topic_def log_def Let_def dest: set_update_cases)

lemma names_ok_echo_subscribe: "names_ok s \<Longrightarrow> names_ok (echo_subscribe ts s)"
proof -
  have "names_ok s \<Longrightarrow> names_ok (fold echo_subscribe_topic ts s)"
    by (induction ts arbitrary: s) (simp_all add: names_ok_echo_subscribe_topic)
  then show "names_ok s \<Longrightarrow> names_ok (echo_subscribe ts s)" by (simp add: echo_subscribe_def)
qed

lemma names_ok_echo_unsubscribe_topic:
  "names_ok s \<Longrightarrow> names_ok (left (echo_unsubscribe_topic T s))"
  by (auto simp: names_ok_def echo_unsubscribe_topic_def echo_leave_def log_def
      split: option.splits dest: set_delete_subset)

lemma names_ok_echo_unsubscribe: "names_ok s \<Longrightarrow> names_ok (left (echo_unsubscribe ts s))"
  unfolding echo_unsubscribe_def
  by (rule forEach_left_preserves [where P = names_ok]) (rule names_ok_echo_unsubscribe_topic)

lemma names_ok_echo_disconnect: "names_ok s \<Longrightarrow> names_ok (left (echo_disconnect s))"
proof -
  assume n: "names_ok s"
  let ?s1 = "s\<lparr>shouldConnect := False, connected := False\<rparr>"
  let ?r = "forEach (\<lambda>(topic, channel). echo_leave (getChannelName topic)) (channels ?s1) ?s1"
  from n have "names_ok ?s1" by (simp add: names_ok_def)
  then have l: "names_ok (left ?r)" by (rule names_ok_leave_all)
  show ?thesis
  proof (cases ?r)
    case (Inl a)
    with l show ?thesis by (simp add: echo_disconnect_def Let_def)
  next
    case (Inr s2)
    then show ?thesis by (simp add: echo_disconnect_def Let_def names_ok_def emit_def)
  qed
qed

lemma names_ok_echo_destroy: "names_ok s \<Longrightarrow> names_ok (left (echo_destroy s))"
proof -
  assume "names_ok s"
  then have l: "names_ok (left (echo_disconnect s))" by (rule names_ok_echo_disconnect)
  show ?thesis
  proof (cases "echo_disconnect s")
    case (Inl a)
    with l show ?thesis by (simp add: echo_destroy_def)
  next
    case (Inr s1)
    with l show ?thesis
      by (simp add: echo_destroy_def names_ok_def SignalingAdapter_destroy_def Observable_destroy_def)
  qed
qed

lemma waiting_echo_subscribe_topic:
  assumes a: "waiting T q w s"
  shows "waiting T q w (echo_subscribe_topic T' s)"
proof (cases "map_of (channels s) T'")
  case (Some c)
  with a show ?thesis by (simp add: echo_subscribe_topic_def)
next
  case None
  from a have "names_ok s" by (simp add: waiting_def)
  then have n: "names_ok (echo_subscribe_topic T' s)" by (rule names_ok_echo_subscribe_topic)
  have f: "readyChannels (echo_subscribe_topic T' s) = readyChannels s"
    "messageQueue (echo_subscribe_topic T' s) = messageQueue s"
    "bound (echo_subscribe_topic T' s) = insert T' (bound s)"
    "trace (echo_subscribe_topic T' s) = trace s @ [EchoPrivate (getChannelName T')]"
    using None by (simp_all add: echo_subscribe_topic_def log_def Let_def bound_def dom_update)
  show ?thesis using a n f by (simp add: waiting_def queuedMessages_def whispers_on_append)
qed

lemma waiting_echo_subscribe: "waiting T q w s \<Longrightarrow> waiting T q w (echo_subscribe ts s)"
proof -
  have "waiting T q w s \<Longrightarrow> waiting T q w (fold echo_subscribe_topic ts s)"
    by (induction ts arbitrary: s) (simp_all add: waiting_echo_subscribe_topic)
  then show "waiting T q w s \<Longrightarrow> waiting T q w (echo_subscribe ts s)"
    by (simp add: echo_subscribe_def)
qed

lemma waiting_echo_unsubscribe_topic:
  "T' \<noteq> T \<Longrightarrow> waiting T q w s \<Longrightarrow> waiting T q w (left (echo_unsubscribe_topic T' s))"
  by (auto simp: waiting_def names_ok_echo_unsubscribe_topic)
     (auto simp: echo_unsubscribe_topic_def echo_leave_def bound_def queuedMessages_def log_def
        bound_delete whispers_on_append split: option.splits if_splits)

lemma waiting_echo_unsubscribe:
  "T \<notin> set ts \<Longrightarrow> waiting T q w s \<Longrightarrow> waiting T q w (left (echo_unsubscribe ts s))"
  unfolding echo_unsubscribe_def
  by (rule forEach_left_preserves_in [where P = "waiting T q w"])
     (auto intro: waiting_echo_unsubscribe_topic)

lemma names_ok_presence_subscribe_topic: "names_ok s \<Longrightarrow> names_ok (presence_subscribe_topic T s)"
  by (auto simp: names_ok_def presence_subscribe_topic_def log_def Let_def dest: set_update_cases)

lemma names_ok_presence_subscribe: "names_ok s \<Longrightarrow> names_ok (presence_subscribe ts s)"
proof -
  have "names_ok s \<Longrightarrow> names_ok (fold presence_subscribe_topic ts s)"
    by (induction ts arbitrary: s) (simp_all add: names_ok_presence_subscribe_topic)
  then show "names_ok s \<Longrightarrow> names_ok (presence_subscribe ts s)" by (simp add: presence_subscribe_def)
qed

lemma names_ok_presence_unsubscribe_topic:
  "names_ok s \<Longrightarrow> names_ok (left (presence_unsubscribe_topic T s))"
  by (auto simp: names_ok_def presence_unsubscribe_topic_def echo_leave_def log_def
      split: option.splits dest: set_delete_subset)

lemma names_ok_presence_unsubscribe: "names_ok s \<Longrightarrow> names_ok (left (presence_unsubscribe ts s))"
  unfolding presence_unsubscribe_def
  by (rule forEach_left_preserves [where P = names_ok]) (rule names_ok_presence_unsubscribe_topic)

lemma names_ok_presence_disconnect: "names_ok s \<Longrightarrow> names_ok (left (presence_disconnect s))"
proof -
  assume n: "names_ok s"
  let ?s1 = "s\<lparr>shouldConnect := False, connected := False\<rparr>"
  let ?r = "forEach (\<lambda>(topic, channel). echo_leave (getChannelName topic)) (channels ?s1) ?s1"
  from n have "names_ok ?s1" by (simp add: names_ok_def)
  then have l: "names_ok (left ?r)" by (rule names_ok_leave_all)
  show ?thesis
  proof (cases ?r)
    case (Inl a)
    with l show ?thesis by (simp add: presence_disconnect_def Let_def)
  next
    case (Inr s2)
    then show ?thesis by (simp add: presence_disconnect_def Let_def names_ok_def emit_def)
  qed
qed

lemma names_ok_presence_destroy: "names_ok s \<Longrightarrow> names_ok (left (presence_destroy s))"
proof -
  assume "names_ok s"
  then have l: "names_ok (left (presence_disconnect s))" by (rule names_ok_presence_disconnect)
  show ?thesis
  proof (cases "presence_disconnect s")
    case (Inl a)
    with l show ?thesis by (simp add: presence_destroy_def)
  next
    case (Inr s1)
    with l show ?thesis
      by (simp add: presence_destroy_def names_ok_def SignalingAdapter_destroy_def Observable_destroy_def)
  qed
qed

lemma waiting_presence_subscribe_topic:
  assumes a: "waiting T q w s"
  shows "waiting T q w (presence_subscribe_topic T' s)"
proof (cases "map_of (channels s) T'")
  case (Some c)
  with a show ?thesis by (simp add: presence_subscribe_topic_def)
next
  case None
  from a have "names_ok s" by (simp add: waiting_def)
  then have n: "names_ok (presence_subscribe_topic T' s)" by (rule names_ok_presence_subscribe_topic)
  have f: "readyChannels (presence_subscribe_topic T' s) = readyChannels s"
    "messageQueue (presence_subscribe_topic T' s) = messageQueue s"
    "bound (presence_subscribe_topic T' s) = insert T' (bound s)"
    "trace (presence_subscribe_topic T' s) = trace s @ [EchoJoin (getChannelName T')]"
    using None by (simp_all add: presence_subscribe_topic_def log_def Let_def bound_def dom_update)
  show ?thesis using a n f by (simp add: waiting_def queuedMessages_def whispers_on_append)
qed

lemma waiting_presence_subscribe: "waiting T q w s \<Longrightarrow> waiting T q w (presence_subscribe ts s)"
proof -
  have "waiting T q w s \<Longrightarrow> waiting T q w (fold presence_subscribe_topic ts s)"
    by (induction ts arbitrary: s) (simp_all add: waiting_presence_subscribe_topic)
  then show "waiting T q w s \<Longrightarrow> waiting T q w (presence_subscribe ts s)"
    by (simp add: presence_subscribe_def)
qed

lemma waiting_presence_unsubscribe_topic:
  "T' \<noteq> T \<Longrightarrow> waiting T q w s \<Longrightarrow> waiting T q w (left (presence_unsubscribe_topic T' s))"
  by (auto simp: waiting_def names_ok_presence_unsubscribe_topic)
     (auto simp: presence_unsubscribe_topic_def echo_leave_def bound_def queuedMessages_def log_def
        bound_delete whispers_on_append split: option.splits if_splits)

lemma waiting_presence_unsubscribe:
  "T \<notin> set ts \<Longrightarrow> waiting T q w s \<Longrightarrow> waiting T q w (left (presence_unsubscribe ts s))"
  unfolding presence_unsubscribe_def
  by (rule forEach_left_preserves_in [where P = "waiting T q w"])
     (auto intro: waiting_presence_unsubscribe_topic)

lemma names_ok_echo_on_subscribed: "names_ok s \<Longrightarrow> names_ok (echo_on_subscribed T c s)"
  by (simp add: names_ok_def echo_on_subscribed_def flush_eq Let_def)

lemma names_ok_echo_on_error: "names_ok s \<Longrightarrow> names_ok (echo_on_error cn err s)"
  by (simp add: echo_on_error_def names_ok_shared)

lemma names_ok_echo_step: "names_ok s \<Longrightarrow> names_ok (left (echo_step ev s))"
  by (cases ev)
     (auto split: option.splits
       intro: names_ok_shared names_ok_timer_fires names_ok_on_listen names_ok_echo_subscribe
         names_ok_echo_unsubscribe names_ok_echo_disconnect names_ok_echo_destroy
         names_ok_echo_on_subscribed names_ok_echo_on_error)

lemma names_ok_echo_reach: "names_ok s \<Longrightarrow> names_ok (echo_reach evs s)"
  unfolding echo_reach_def
  by (induction evs arbitrary: s) (simp_all add: names_ok_echo_step)

lemma names_ok_echo_new: "names_ok (LaravelEchoAdapter_new e)"
  by (simp add: names_ok_def LaravelEchoAdapter_new_def)

lemma waiting_echo_on_subscribed:
  assumes a: "waiting T q w s" and m: "map_of (channels s) T' = Some c" and n: "T' \<noteq> T"
  shows "waiting T q w (echo_on_subscribed T' c s)"
proof -
  from a have "names_ok s" by (simp add: waiting_def)
  from other_channel [OF this m n] have "c \<noteq> getChannelName T" .
  with a n show ?thesis
    by (simp add: waiting_def names_ok_def bound_def queuedMessages_def echo_on_subscribed_def
        flush_eq Let_def whispers_on_append whispers_on_Whisper_other)
qed

lemma waiting_echo_on_error: "waiting T q w s \<Longrightarrow> waiting T q w (echo_on_error cn err s)"
  by (simp add: echo_on_error_def waiting_log)

lemma waiting_echo_step:
  assumes k: "keeps T ev" and a: "waiting T q w s"
  shows "waiting T (q @ published T [ev]) w (left (echo_step ev s))"
proof (cases ev)
  case (Publish T' d)
  with a show ?thesis
    by (cases "T' = T") (simp_all add: waiting_publish_same waiting_publish_other)
next
  case (ChannelSubscribed T')
  with k a show ?thesis
    by (auto split: option.splits intro: waiting_echo_on_subscribed)
qed (insert k a, auto split: option.splits
      intro: waiting_connect waiting_on waiting_timer_fires waiting_echo_subscribe
        waiting_echo_unsubscribe waiting_echo_on_error waiting_on_listen
        waiting_on_listenForWhisper)

lemma waiting_echo_reach:
  "\<forall>ev \<in> set evs. keeps T ev \<Longrightarrow> waiting T q w s \<Longrightarrow>
   waiting T (q @ published T evs) w (echo_reach evs s)"
proof (induction evs arbitrary: q s)
  case Nil
  then show ?case by (simp add: echo_reach_def)
next
  case (Cons ev evs)
  from Cons.prems have k: "keeps T ev" and ks: "\<forall>ev \<in> set evs. keeps T ev" by simp_all
  from waiting_echo_step [OF k Cons.prems(2)]
  have "waiting T (q @ published T [ev]) w (left (echo_step ev s))" .
  from Cons.IH [OF ks this] show ?case
    by (simp add: echo_reach_def published_Cons [of T ev evs])
qed

lemma echo_ready_signal:
  assumes a: "waiting T q w s"
  shows "\<exists>s'. echo_step (ChannelSubscribed T) s = Inr s' \<and>
     trace s' = trace s @ map (Whisper (getChannelName T)) q \<and>
     whispers_on (getChannelName T) (trace s') = w @ q \<and>
     messageQueue s' T = None \<and> T \<in> readyChannels s'"
proof -
  from waiting_channel [OF a] have c: "map_of (channels s) T = Some (getChannelName T)" .
  from a have q: "queuedMessages T s = q" and w: "whispers_on (getChannelName T) (trace s) = w"
    by (simp_all add: waiting_def)
  show ?thesis
    using q w
    by (simp add: c echo_on_subscribed_def flush_eq Let_def queuedMessages_def
        whispers_on_append whispers_on_Whisper_same)
qed

lemma names_ok_presence_on_subscribed:
  "names_ok s \<Longrightarrow> names_ok (left (presence_on_subscribed T cn c s))"
  by (auto simp: names_ok_def presence_on_subscribed_def flush_eq Let_def log_def after_call_def
      split: option.splits)

lemma names_ok_presence_handlers:
  "names_ok s \<Longrightarrow> names_ok (presence_on_here T ms s)"
  "names_ok s \<Longrightarrow> names_ok (presence_on_joining T m s)"
  "names_ok s \<Longrightarrow> names_ok (presence_on_leaving T m s)"
  "names_ok s \<Longrightarrow> names_ok (presence_on_error cn err s)"
  "names_ok s \<Longrightarrow> names_ok (presence_onHere cb s)"
  "names_ok s \<Longrightarrow> names_ok (presence_onJoining cb s)"
  "names_ok s \<Longrightarrow> names_ok (presence_onLeaving cb s)"
  "names_ok s \<Longrightarrow> names_ok (presence_onError cb s)"
  "names_ok s \<Longrightarrow> names_ok (presence_onSubscribed cb s)"
  by (simp_all add: names_ok_def presence_on_here_def presence_on_joining_def
      presence_on_leaving_def presence_on_error_def log_def Let_def presence_onHere_def
      presence_onJoining_def presence_onLeaving_def presence_onError_def presence_onSubscribed_def)

lemma names_ok_presence_common_step:
  "names_ok s \<Longrightarrow> names_ok (left (presence_step (Common ev) s))"
  by (cases ev)
     (auto split: option.splits
       intro: names_ok_shared names_ok_timer_fires names_ok_on_listen names_ok_presence_subscribe
         names_ok_presence_unsubscribe names_ok_presence_disconnect names_ok_presence_destroy
         names_ok_presence_on_subscribed names_ok_presence_handlers)

lemma names_ok_presence_step: "names_ok s \<Longrightarrow> names_ok (left (presence_step ev s))"
  by (cases ev)
     (auto split: option.splits
       intro: names_ok_presence_common_step names_ok_presence_handlers)

lemma names_ok_presence_reach: "names_ok s \<Longrightarrow> names_ok (presence_reach evs s)"
  unfolding presence_reach_def
  by (induction evs arbitrary: s) (simp_all add: names_ok_presence_step)

lemma names_ok_presence_new:
  "LaravelEchoPresenceAdapter_new e cbs = Inr s \<Longrightarrow> names_ok s"
  by (auto simp: names_ok_def LaravelEchoPresenceAdapter_new_def Let_def split: sum.splits)

lemma waiting_presence_on_subscribed:
  assumes a: "waiting T q w s" and m: "map_of (channels s) T' = Some c" and n: "T' \<noteq> T"
  shows "waiting T q w (left (presence_on_subscribed T' cn c s))"
proof -
  from a have "names_ok s" by (simp add: waiting_def)
  from other_channel [OF this m n] have "c \<noteq> getChannelName T" .
  with a n show ?thesis
    by (auto simp: waiting_def names_ok_def bound_def queuedMessages_def
        presence_on_subscribed_def flush_eq Let_def log_def after_call_def whispers_on_append
        whispers_on_Whisper_other split: option.splits)
qed

lemma waiting_presence_handlers:
  "waiting T q w s \<Longrightarrow> waiting T q w (presence_on_here T' ms s)"
  "waiting T q w s \<Longrightarrow> waiting T q w (presence_on_joining T' m s)"
  "waiting T q w s \<Longrightarrow> waiting T q w (presence_on_leaving T' m s)"
  "waiting T q w s \<Longrightarrow> waiting T q w (presence_on_error cn err s)"
  "waiting T q w s \<Longrightarrow> waiting T q w (presence_onHere cb s)"
  "waiting T q w s \<Longrightarrow> waiting T q w (presence_onJoining cb s)"
  "waiting T q w s \<Longrightarrow> waiting T q w (presence_onLeaving cb s)"
  "waiting T q w s \<Longrightarrow> waiting T q w (presence_onError cb s)"
  "waiting T q w s \<Longrightarrow> waiting T q w (presence_onSubscribed cb s)"
  by (simp_all add: waiting_def names_ok_def bound_def queuedMessages_def presence_on_here_def
      presence_on_joining_def presence_on_leaving_def presence_on_error_def log_def Let_def
      presence_onHere_def presence_onJoining_def presence_onLeaving_def presence_onError_def
      presence_onSubscribed_def whispers_on_append)

lemma waiting_presence_common_step:
  assumes k: "keeps T ev" and a: "waiting T q w s"
  shows "waiting T (q @ published T [ev]) w (left (presence_step (Common ev) s))"
proof (cases ev)
  case (Publish T' d)
  with a show ?thesis
    by (cases "T' = T") (simp_all add: waiting_publish_same waiting_publish_other)
next
  case (ChannelSubscribed T')
  with k a show ?thesis
    by (auto split: option.splits intro: waiting_presence_on_subscribed)
qed (insert k a, auto split: option.splits
      intro: waiting_connect waiting_on waiting_timer_fires waiting_presence_subscribe
        waiting_presence_unsubscribe waiting_presence_handlers waiting_on_listen
        waiting_on_listenForWhisper)

lemma presence_published_Common:
  "presence_published T [Common ev] = published T [ev]"
  by (cases ev) simp_all

lemma waiting_presence_step:
  assumes k: "presence_keeps T ev" and a: "waiting T q w s"
  shows "waiting T (q @ presence_published T [ev]) w (left (presence_step ev s))"
proof (cases ev)
  case (Common c)
  with k a waiting_presence_common_step [of T c q w s] show ?thesis
    by (simp add: presence_published_Common)
qed (insert a, auto split: option.splits intro: waiting_presence_handlers)

lemma waiting_presence_reach:
  "\<forall>ev \<in> set evs. presence_keeps T ev \<Longrightarrow> waiting T q w s \<Longrightarrow>
   waiting T (q @ presence_published T evs) w (presence_reach evs s)"
proof (induction evs arbitrary: q s)
  case Nil
  then show ?case by (simp add: presence_reach_def)
next
  case (Cons ev evs)
  from Cons.prems have k: "presence_keeps T ev" and ks: "\<forall>ev \<in> set evs. presence_keeps T ev"
    by simp_all
  from waiting_presence_step [OF k Cons.prems(2)]
  have "waiting T (q @ presence_published T [ev]) w (left (presence_step ev s))" .
  from Cons.IH [OF ks this] show ?case
    by (simp add: presence_reach_def presence_published_Cons [of T ev evs])
qed

lemma presence_ready_signal_returns:
  assumes a: "waiting T q w s" and r: "returns (onSubscribed (callbacks s))"
  shows "\<exists>s'. presence_step (Common (ChannelSubscribed T)) s = Inr s' \<and>
     trace s' = trace s
       @ (if truthy (onSubscribed (callbacks s))
          then [CallOnSubscribed (onSubscribed (callbacks s)) (getChannelName T)] else [])
       @ map (Whisper (getChannelName T)) q \<and>
     whispers_on (getChannelName T) (trace s') = w @ q \<and>
     messageQueue s' T = None \<and> T \<in> readyChannels s'"
proof -
  from waiting_channel [OF a] have c: "map_of (channels s) T = Some (getChannelName T)" .
  from a have q: "queuedMessages T s = q" and w: "whispers_on (getChannelName T) (trace s) = w"
    by (simp_all add: waiting_def)
  show ?thesis
    using q w r
    by (auto simp: c presence_on_subscribed_def flush_eq Let_def queuedMessages_def log_def
        after_call_def returns_def whispers_on_append whispers_on_Whisper_same)
qed

lemma presence_ready_signal_throws:
  assumes a: "waiting T q w s" and r: "\<not> returns (onSubscribed (callbacks s))"
  shows "\<exists>e s'. presence_step (Common (ChannelSubscribed T)) s = Inl (e, s') \<and>
     calls (onSubscribed (callbacks s)) = Some e \<and>
     trace s' = trace s @ [CallOnSubscribed (onSubscribed (callbacks s)) (getChannelName T)] \<and>
     whispers_on (getChannelName T) (trace s') = w \<and>
     queuedMessages T s' = q \<and> T \<in> readyChannels s'"
proof -
  from waiting_channel [OF a] have c: "map_of (channels s) T = Some (getChannelName T)" .
  from a have q: "queuedMessages T s = q" and w: "whispers_on (getChannelName T) (trace s) = w"
    by (simp_all add: waiting_def)
  from r obtain e where e: "calls (onSubscribed (callbacks s)) = Some e"
    and t: "truthy (onSubscribed (callbacks s))"
    by (auto simp: returns_def)
  show ?thesis
    using q w
    by (simp add: c presence_on_subscribed_def Let_def queuedMessages_def log_def
        after_call_def e t whispers_on_append)
qed

lemma waiting_start:
  "names_ok s \<Longrightarrow> T \<in> bound s \<Longrightarrow> T \<notin> readyChannels s \<Longrightarrow>
   waiting T (queuedMessages T s) (whispers_on (getChannelName T) (trace s)) s"
  by (simp add: waiting_def)

lemma publish_unbound: "T \<notin> bound s \<Longrightarrow> publish T d s = s"
  by (simp add: publish_def bound_def map_of_eq_None_iff [symmetric])

lemma flushed_echo:
  assumes s: "s = echo_reach evs0 (LaravelEchoAdapter_new e)"
    and b: "T \<in> bound s" and r: "T \<notin> readyChannels s"
    and k: "\<forall>ev \<in> set evs. keeps T ev"
  shows "\<exists>s'. echo_step (ChannelSubscribed T) (echo_reach evs s) = Inr s' \<and>
      trace s' = trace (echo_reach evs s)
        @ map (Whisper (getChannelName T)) (queuedMessages T s @ published T evs) \<and>
      whispers_on (getChannelName T) (trace s') =
        whispers_on (getChannelName T) (trace s) @ queuedMessages T s @ published T evs \<and>
      messageQueue s' T = None \<and> T \<in> readyChannels s'"
proof -
  have "names_ok s" unfolding s using names_ok_echo_new by (rule names_ok_echo_reach)
  from waiting_start [OF this b r] have "waiting T (queuedMessages T s) (whispers_on (getChannelName T) (trace s)) s" .
  from waiting_echo_reach [OF k this]
  have "waiting T (queuedMessages T s @ published T evs) (whispers_on (getChannelName T) (trace s))
          (echo_reach evs s)" .
  from echo_ready_signal [OF this] show ?thesis by simp
qed

lemma flushed_presence:
  assumes n: "LaravelEchoPresenceAdapter_new e cbs = Inr p0"
    and p: "p = presence_reach evs0 p0"
    and b: "T \<in> bound p" and r: "T \<notin> readyChannels p"
    and k: "\<forall>ev \<in> set evs. presence_keeps T ev"
    and p1: "p1 = presence_reach evs p"
  shows "(returns (onSubscribed (callbacks p1)) \<longrightarrow>
      (\<exists>p'. presence_step (Common (ChannelSubscribed T)) p1 = Inr p' \<and>
         trace p' = trace p1
           @ (if truthy (onSubscribed (callbacks p1))
              then [CallOnSubscribed (onSubscribed (callbacks p1)) (getChannelName T)] else [])
           @ map (Whisper (getChannelName T)) (queuedMessages T p @ presence_published T evs) \<and>
         whispers_on (getChannelName T) (trace p') =
           whispers_on (getChannelName T) (trace p) @ queuedMessages T p @ presence_published T evs \<and>
         messageQueue p' T = None \<and> T \<in> readyChannels p'))
   \<and> (\<not> returns (onSubscribed (callbacks p1)) \<longrightarrow>
      (\<exists>x p'. presence_step (Common (ChannelSubscribed T)) p1 = Inl (x, p') \<and>
         calls (onSubscribed (callbacks p1)) = Some x \<and>
         trace p' = trace p1 @ [CallOnSubscribed (onSubscribed (callbacks p1)) (getChannelName T)] \<and>
         whispers_on (getChannelName T) (trace p') = whispers_on (getChannelName T) (trace p) \<and>
         queuedMessages T p' = queuedMessages T p @ presence_published T evs \<and>
         T \<in> readyChannels p'))"
proof -
  have "names_ok p" unfolding p using names_ok_presence_new [OF n] by (rule names_ok_presence_reach)
  from waiting_start [OF this b r] have "waiting T (queuedMessages T p) (whispers_on (getChannelName T) (trace p)) p" .
  from waiting_presence_reach [OF k this]
  have w: "waiting T (queuedMessages T p @ presence_published T evs)
          (whispers_on (getChannelName T) (trace p)) p1"
    by (simp add: p1)
  show ?thesis
    using presence_ready_signal_returns [OF w] presence_ready_signal_throws [OF w] by blast
qed

section \<open>The deferred emission of connect\<close>

lemma timer_fires_Cons:
  "timers s = t # ts \<Longrightarrow>
   timer_fires s = s\<lparr>timers := ts, trace := trace s @ map (\<lambda>g. Notify g ''connect'' []) (observers s ''connect'')\<rparr>"
  by (cases t) (simp add: timer_fires_def emit_def)

lemma fires_all:
  "timers s = ts \<Longrightarrow>
   (timer_fires ^^ length ts) s =
     s\<lparr>timers := [],
       trace := trace s @ concat (map (\<lambda>t. map (\<lambda>g. Notify g ''connect'' []) (observers s ''connect'')) ts)\<rparr>"
proof (induction ts arbitrary: s)
  case Nil
  then show ?case by simp
next
  case (Cons t ts)
  let ?s1 = "timer_fires s"
  have s1: "?s1 = s\<lparr>timers := ts, trace := trace s @ map (\<lambda>g. Notify g ''connect'' []) (observers s ''connect'')\<rparr>"
    using Cons.prems by (rule timer_fires_Cons)
  have "timers ?s1 = ts" by (simp add: s1)
  from Cons.IH [OF this] show ?case
    by (simp add: funpow_swap1) (simp add: s1)
qed

lemma all_timers_fire_eq:
  "all_timers_fire s =
     s\<lparr>timers := [],
       trace := trace s @ concat (map (\<lambda>t. map (\<lambda>g. Notify g ''connect'' []) (observers s ''connect'')) (timers s))\<rparr>"
  unfolding all_timers_fire_def by (rule fires_all) simp

lemma on_registers: "f \<in> set (observers (on name f s) name)"
  by (simp add: on_def)

lemma on_frame: "trace (on name f s) = trace s" "timers (on name f s) = timers s"
  by (simp_all add: on_def)

lemma connect_fields:
  "shouldConnect (connect u s)" "connected (connect u s)" "trace (connect u s) = trace s"
  "timers (connect u s) = timers s @ [EmitConnect]" "observers (connect u s) = observers s"
  by (simp_all add: connect_def setTimeout_def)

lemma connect_listener_notified:
  "Notify f ''connect'' [] \<in> set (trace (all_timers_fire (on ''connect'' f (connect u s))))"
proof -
  let ?s2 = "on ''connect'' f (connect u s)"
  have "f \<in> set (observers ?s2 ''connect'')" by (rule on_registers)
  moreover have "timers ?s2 = timers s @ [EmitConnect]" by (simp add: on_frame connect_fields)
  ultimately show ?thesis by (simp add: all_timers_fire_eq)
qed

lemma connect_timer_exact:
  "timers s = [] \<Longrightarrow>
   timer_fires (on ''connect'' f (connect u s)) = 
     (on ''connect'' f (connect u s))\<lparr>timers := [], trace := trace s @ map (\<lambda>g. Notify g ''connect'' []) (observers (on ''connect'' f s) ''connect'')\<rparr>"
proof -
  assume e: "timers s = []"
  let ?s2 = "on ''connect'' f (connect u s)"
  have t: "timers ?s2 = EmitConnect # []" using e by (simp add: on_frame connect_fields)
  have o: "observers ?s2 ''connect'' = observers (on ''connect'' f s) ''connect''"
    by (simp add: on_def connect_fields)
  show ?thesis using timer_fires_Cons [OF t] by (simp add: o on_frame connect_fields)
qed

lemma all_timers_done: "timers (all_timers_fire s) = []"
  by (subst all_timers_fire_eq) simp

lemma connect_timer_exact_trace:
  "timers s = [] \<Longrightarrow>
   trace (timer_fires (on ''connect'' f (connect u s))) =
     trace s @ map (\<lambda>g. Notify g ''connect'' []) (observers (on ''connect'' f s) ''connect'')"
  by (simp add: connect_timer_exact)

lemma connect_deferred:
  "shouldConnect (connect u s) \<and> connected (connect u s)
   \<and> trace (connect u s) = trace s
   \<and> timers (connect u s) = timers s @ [EmitConnect]
   \<and> Notify f ''connect'' [] \<in> set (trace (all_timers_fire (on ''connect'' f (connect u s))))
   \<and> timers (all_timers_fire (on ''connect'' f (connect u s))) = []
   \<and> (timers s = [] \<longrightarrow>
        trace (timer_fires (on ''connect'' f (connect u s))) =
          trace s @ map (\<lambda>g. Notify g ''connect'' []) (observers (on ''connect'' f s) ''connect''))"
  by (intro conjI impI)
     (simp_all only: connect_fields connect_listener_notified all_timers_done
        connect_timer_exact_trace)

section \<open>Facts about the factory\<close>

lemma js_get_JStr: "js_get v k = JStr x \<Longrightarrow> typeof v = ''object'' \<and> v \<noteq> JNull"
  by (cases v) simp_all

lemma presence_new_result:
  "LaravelEchoPresenceAdapter_new e cbs = Inl err \<longleftrightarrow> cbs = JNull \<and> err = TypeError"
  by (auto simp: LaravelEchoPresenceAdapter_new_def get_prop_def Let_def)

lemma presence_new_ok:
  "cbs \<noteq> JNull \<Longrightarrow> \<exists>a. LaravelEchoPresenceAdapter_new e cbs = Inr a \<and> echo a = e \<and> channels a = []"
  by (auto simp: LaravelEchoPresenceAdapter_new_def get_prop_def Let_def)

lemma create_echo:
  assumes "js_get v ''type'' = JStr ''echo''"
  shows "createSignalingAdapter (Value v) =
     (if \<not> truthy (js_get v ''echo'')
      then Inl (Error ''Laravel Echo instance is required for LaravelEchoAdapter'')
      else Inr (Echo (LaravelEchoAdapter_new (js_get v ''echo''))))"
proof -
  from js_get_JStr [OF assms] have o: "typeof v = ''object''" "v \<noteq> JNull" by simp_all
  show ?thesis by (simp add: o assms del: js_get.simps)
qed

lemma create_presence:
  assumes "js_get v ''type'' = JStr ''echo-presence''"
  shows "createSignalingAdapter (Value v) =
     (if \<not> truthy (js_get v ''echo'')
      then Inl (Error ''Laravel Echo instance is required for LaravelEchoPresenceAdapter'')
      else (case LaravelEchoPresenceAdapter_new (js_get v ''echo'') (js_get v ''callbacks'') of
              Inl e \<Rightarrow> Inl e
            | Inr a \<Rightarrow> Inr (Presence a)))"
proof -
  from js_get_JStr [OF assms] have o: "typeof v = ''object''" "v \<noteq> JNull" by simp_all
  show ?thesis by (simp add: o assms del: js_get.simps)
qed

lemma create_default:
  assumes "typeof v \<noteq> ''string''"
    and "\<not> (typeof v = ''object'' \<and> v \<noteq> JNull \<and>
       (js_get v ''type'' = JStr ''echo'' \<or> js_get v ''type'' = JStr ''echo-presence''))"
  shows "createSignalingAdapter (Value v) = Inr (Default DefaultSignalingAdapter_new)"
proof -
  from assms(2) js_get_JStr [of v "''type''"]
  have "js_get v ''type'' \<noteq> JStr ''echo''" "js_get v ''type'' \<noteq> JStr ''echo-presence''"
    by blast+
  then show ?thesis using assms(1) by (simp del: js_get.simps)
qed

section \<open>Facts about the example states\<close>

lemma echo_room1_fields:
  "channels echo_room1 = [(''room1'', ''y-webrtc.room1'')]"
  "readyChannels echo_room1 = {}"
  "messageQueue echo_room1 = Map.empty"
  "trace echo_room1 = [EchoPrivate ''y-webrtc.room1'']"
  "timers echo_room1 = [EmitConnect]"
  "connected echo_room1" "shouldConnect echo_room1"
  "echo echo_room1 = example_echo"
  by (simp_all add: echo_room1_def echo_subscribe_def echo_subscribe_topic_def connect_def
      setTimeout_def LaravelEchoAdapter_new_def example_echo_def log_def getChannelName_def Let_def)

lemma presence_fresh_new:
  "LaravelEchoPresenceAdapter_new example_echo example_callbacks = Inr presence_fresh"
  by (simp add: LaravelEchoPresenceAdapter_new_def example_callbacks_def presence_fresh_def
      get_prop_def js_or_def)

lemma presence_room1_fields:
  "channels presence_room1 = [(''room1'', ''y-webrtc.room1'')]"
  "readyChannels presence_room1 = {}"
  "messageQueue presence_room1 = Map.empty"
  "presenceMembers presence_room1 = Map.empty"
  "trace presence_room1 = [EchoJoin ''y-webrtc.room1'']"
  "timers presence_room1 = [EmitConnect]"
  "connected presence_room1" "shouldConnect presence_room1"
  "echo presence_room1 = example_echo"
  "callbacks presence_room1 = \<lparr>onHere = JNull, onJoining = JNull, onLeaving = JFun 3,
                   onError = JFun 1, onSubscribed = JFun 2\<rparr>"
  by (simp_all add: presence_room1_def presence_subscribe_def presence_subscribe_topic_def connect_def
      setTimeout_def presence_fresh_def example_echo_def log_def getChannelName_def Let_def)

lemma echo_room1_run:
  "echo_run [Connect [], Subscribe [''room1'']] (LaravelEchoAdapter_new example_echo) = Inr echo_room1"
  by (simp add: echo_run_def echo_room1_def)

lemma presence_room1_run:
  "presence_run [Common (Connect []), Common (Subscribe [''room1''])] presence_fresh = Inr presence_room1"
  by (simp add: presence_run_def presence_room1_def)

lemma member_ids: "id' alice = NumId 1" "id' bob = NumId 2" "id' carol = NumId 3"
  by (simp_all add: alice_def bob_def carol_def)

lemma roster_room1:
  "getPresenceMembers ''room1'' (presence_on_here ''room1'' [alice, bob] presence_room1) = [alice, bob]"
  "presenceMembers (presence_on_here ''room1'' [alice, bob] presence_room1) ''room2'' = None"
  "callbacks (presence_on_here ''room1'' [alice, bob] presence_room1) = callbacks presence_room1"
  "trace (presence_on_here ''room1'' [alice, bob] presence_room1) = trace presence_room1"
  by (simp_all add: presence_on_here_def getPresenceMembers_def presence_room1_fields log_def)

lemma unsubscribed_room1:
  "presence_unsubscribe [''room1''] (presence_on_here ''room1'' [alice, bob] presence_room1)
     = Inr ((presence_on_here ''room1'' [alice, bob] presence_room1)
              \<lparr>trace := [EchoJoin ''y-webrtc.room1'', EchoLeave ''y-webrtc.room1''],
                channels := [], readyChannels := {}, messageQueue := Map.empty,
                presenceMembers := Map.empty\<rparr>)"
  by (simp add: presence_unsubscribe_def presence_unsubscribe_topic_def presence_on_here_def
      presence_room1_fields echo_leave_def log_def example_echo_def getChannelName_def
      AList.delete_eq)


lemmas eval_defs =
  echo_reach_def presence_reach_def echo_run_def presence_run_def
  LaravelEchoAdapter_new_def presence_fresh_def presence_hook_def example_echo_def
  connect_def setTimeout_def echo_subscribe_def echo_subscribe_topic_def
  presence_subscribe_def presence_subscribe_topic_def log_def getChannelName_def
  publish_def queuedMessages_def echo_on_subscribed_def presence_on_subscribed_def
  flush_def after_call_def ends_with_call_def bound_def Let_def

lemma presence_hook_new:
  "truthy h \<Longrightarrow>
   LaravelEchoPresenceAdapter_new example_echo (JObj [(''onSubscribed'', h)]) = Inr (presence_hook h)"
  by (simp add: LaravelEchoPresenceAdapter_new_def presence_hook_def get_prop_def js_or_def)

section \<open>The properties\<close>

subsection \<open>Messages published before the channel is ready\<close>

text \<open>
  Claim C1, as amended. Let an adapter have reached, from a new instance, a state in which
  the topic \<open>T\<close> has a channel and is not ready. Let any turns follow that keep the channel
  of \<open>T\<close> and are not its ready signal: \<^verbatim>\<open>publish\<close> on \<open>T\<close> and on other topics, \<^verbatim>\<open>connect\<close>,
  \<^verbatim>\<open>subscribe\<close>, \<^verbatim>\<open>unsubscribe\<close> of other topics, registrations of listeners, timers,
  the setters of the hooks, callbacks of the transport, the ready signals of other topics.
  Then the ready signal of \<open>T\<close> fires.

  In \<^verbatim>\<open>LaravelEchoAdapter\<close> the signal returns. It appends to the trace exactly the whispers,
  on the channel of \<open>T\<close>, of the messages that were queued for \<open>T\<close> at the start followed by
  the data published on \<open>T\<close> since, in the order of the publishes and once each. Nothing was
  whispered on that channel in between. Afterwards the queue of \<open>T\<close> is gone and \<open>T\<close> is
  ready.

  In \<^verbatim>\<open>LaravelEchoPresenceAdapter\<close> the same holds when the hook \<^verbatim>\<open>onSubscribed\<close> is not
  wired or is a function that returns; the call of the hook comes before the whispers. When
  the call of the hook throws, the signal ends with that exception: \<open>T\<close> is ready, nothing
  has been whispered on its channel, and its queue still holds all the messages.

  In both adapters \<^verbatim>\<open>publish\<close> on a topic without channel changes nothing: the message is
  dropped. The claim as stated promises the delivery for every topic that is not ready,
  with or without a channel, and whatever the hook does.
\<close>

theorem queued_publishes_flushed_in_order:
  "(s = echo_reach evs0 (LaravelEchoAdapter_new e) \<and> T \<in> bound s \<and> T \<notin> readyChannels s \<and>
    (\<forall>ev \<in> set evs. keeps T ev) \<longrightarrow>
      (\<exists>s'. echo_step (ChannelSubscribed T) (echo_reach evs s) = Inr s' \<and>
         trace s' = trace (echo_reach evs s)
           @ map (Whisper (getChannelName T)) (queuedMessages T s @ published T evs) \<and>
         whispers_on (getChannelName T) (trace s') =
           whispers_on (getChannelName T) (trace s) @ queuedMessages T s @ published T evs \<and>
         messageQueue s' T = None \<and> T \<in> readyChannels s'))
   \<and> (LaravelEchoPresenceAdapter_new e' cbs = Inr p0 \<and> p = presence_reach pevs0 p0 \<and>
      T \<in> bound p \<and> T \<notin> readyChannels p \<and> (\<forall>ev \<in> set pevs. presence_keeps T ev) \<and>
      p1 = presence_reach pevs p \<longrightarrow>
      (returns (onSubscribed (callbacks p1)) \<longrightarrow>
        (\<exists>p'. presence_step (Common (ChannelSubscribed T)) p1 = Inr p' \<and>
           trace p' = trace p1
             @ (if truthy (onSubscribed (callbacks p1))
                then [CallOnSubscribed (onSubscribed (callbacks p1)) (getChannelName T)] else [])
             @ map (Whisper (getChannelName T)) (queuedMessages T p @ presence_published T pevs) \<and>
           whispers_on (getChannelName T) (trace p') =
             whispers_on (getChannelName T) (trace p) @ queuedMessages T p @ presence_published T pevs \<and>
           messageQueue p' T = None \<and> T \<in> readyChannels p'))
      \<and> (\<not> returns (onSubscribed (callbacks p1)) \<longrightarrow>
        (\<exists>x p'. presence_step (Common (ChannelSubscribed T)) p1 = Inl (x, p') \<and>
           calls (onSubscribed (callbacks p1)) = Some x \<and>
           trace p' = trace p1 @ [CallOnSubscribed (onSubscribed (callbacks p1)) (getChannelName T)] \<and>
           whispers_on (getChannelName T) (trace p') = whispers_on (getChannelName T) (trace p) \<and>
           queuedMessages T p' = queuedMessages T p @ presence_published T pevs \<and>
           T \<in> readyChannels p')))
   \<and> (T \<notin> bound u \<longrightarrow> publish T d u = u)
   \<and> (T \<notin> bound v \<longrightarrow> publish T d v = v)"
  for u :: LaravelEchoAdapter and v :: LaravelEchoPresenceAdapter
proof (intro conjI impI)
  assume "s = echo_reach evs0 (LaravelEchoAdapter_new e) \<and> T \<in> bound s \<and> T \<notin> readyChannels s \<and>
    (\<forall>ev \<in> set evs. keeps T ev)"
  then show "\<exists>s'. echo_step (ChannelSubscribed T) (echo_reach evs s) = Inr s' \<and>
         trace s' = trace (echo_reach evs s)
           @ map (Whisper (getChannelName T)) (queuedMessages T s @ published T evs) \<and>
         whispers_on (getChannelName T) (trace s') =
           whispers_on (getChannelName T) (trace s) @ queuedMessages T s @ published T evs \<and>
         messageQueue s' T = None \<and> T \<in> readyChannels s'"
    using flushed_echo [of s evs0 e T evs] by blast
next
  assume a: "LaravelEchoPresenceAdapter_new e' cbs = Inr p0 \<and> p = presence_reach pevs0 p0 \<and>
      T \<in> bound p \<and> T \<notin> readyChannels p \<and> (\<forall>ev \<in> set pevs. presence_keeps T ev) \<and>
      p1 = presence_reach pevs p"
  then have f: "(returns (onSubscribed (callbacks p1)) \<longrightarrow>
      (\<exists>p'. presence_step (Common (ChannelSubscribed T)) p1 = Inr p' \<and>
         trace p' = trace p1
           @ (if truthy (onSubscribed (callbacks p1))
              then [CallOnSubscribed (onSubscribed (callbacks p1)) (getChannelName T)] else [])
           @ map (Whisper (getChannelName T)) (queuedMessages T p @ presence_published T pevs) \<and>
         whispers_on (getChannelName T) (trace p') =
           whispers_on (getChannelName T) (trace p) @ queuedMessages T p @ presence_published T pevs \<and>
         messageQueue p' T = None \<and> T \<in> readyChannels p'))
   \<and> (\<not> returns (onSubscribed (callbacks p1)) \<longrightarrow>
      (\<exists>x p'. presence_step (Common (ChannelSubscribed T)) p1 = Inl (x, p') \<and>
         calls (onSubscribed (callbacks p1)) = Some x \<and>
         trace p' = trace p1 @ [CallOnSubscribed (onSubscribed (callbacks p1)) (getChannelName T)] \<and>
         whispers_on (getChannelName T) (trace p') = whispers_on (getChannelName T) (trace p) \<and>
         queuedMessages T p' = queuedMessages T p @ presence_published T pevs \<and>
         T \<in> readyChannels p'))"
    using flushed_presence [of e' cbs p0 p pevs0 T pevs p1] by blast
  { assume "returns (onSubscribed (callbacks p1))"
    with f show "\<exists>p'. presence_step (Common (ChannelSubscribed T)) p1 = Inr p' \<and>
         trace p' = trace p1
           @ (if truthy (onSubscribed (callbacks p1))
              then [CallOnSubscribed (onSubscribed (callbacks p1)) (getChannelName T)] else [])
           @ map (Whisper (getChannelName T)) (queuedMessages T p @ presence_published T pevs) \<and>
         whispers_on (getChannelName T) (trace p') =
           whispers_on (getChannelName T) (trace p) @ queuedMessages T p @ presence_published T pevs \<and>
         messageQueue p' T = None \<and> T \<in> readyChannels p'" by blast }
  { assume "\<not> returns (onSubscribed (callbacks p1))"
    with f show "\<exists>x p'. presence_step (Common (ChannelSubscribed T)) p1 = Inl (x, p') \<and>
         calls (onSubscribed (callbacks p1)) = Some x \<and>
         trace p' = trace p1 @ [CallOnSubscribed (onSubscribed (callbacks p1)) (getChannelName T)] \<and>
         whispers_on (getChannelName T) (trace p') = whispers_on (getChannelName T) (trace p) \<and>
         queuedMessages T p' = queuedMessages T p @ presence_published T pevs \<and>
         T \<in> readyChannels p'" by blast }
qed (simp_all add: publish_unbound)

theorem queued_publishes_flushed_in_order_witness:
  "(\<exists>s'. echo_step (ChannelSubscribed ''room1'')
            (echo_reach [Publish ''room1'' (JStr ''a''), Publish ''room2'' (JStr ''x''),
                         ChannelSubscribed ''room2'', Publish ''room1'' (JStr ''b'')]
               (echo_reach [Connect [], Subscribe [''room1'', ''room2'']]
                  (LaravelEchoAdapter_new example_echo))) = Inr s' \<and>
          whispers_on ''y-webrtc.room1'' (trace s') = [JStr ''a'', JStr ''b''] \<and>
          messageQueue s' ''room1'' = None \<and> ''room1'' \<in> readyChannels s')
   \<and> (\<exists>p'. presence_step (Common (ChannelSubscribed ''room1''))
            (presence_reach [Common (Publish ''room1'' (JStr ''a'')), Common (Publish ''room2'' (JStr ''x'')),
                             Common (ChannelSubscribed ''room2''), Common (Publish ''room1'' (JStr ''b''))]
               (presence_reach [Common (Connect []), Common (Subscribe [''room1'', ''room2''])]
                  presence_fresh)) = Inr p' \<and>
          whispers_on ''y-webrtc.room1'' (trace p') = [JStr ''a'', JStr ''b''] \<and>
          messageQueue p' ''room1'' = None \<and> ''room1'' \<in> readyChannels p')
   \<and> (\<exists>x p'. presence_step (Common (ChannelSubscribed ''room1''))
            (presence_reach [Common (Publish ''room1'' (JStr ''a''))]
               (presence_reach [Common (Connect []), Common (Subscribe [''room1''])]
                  (presence_hook (JFunThrows ''boom'')))) = Inl (x, p') \<and>
          whispers_on ''y-webrtc.room1'' (trace p') = [] \<and>
          queuedMessages ''room1'' p' = [JStr ''a''] \<and> ''room1'' \<in> readyChannels p')
   \<and> publish ''room2'' (JStr ''a'') echo_room1 = echo_room1
   \<and> publish ''room2'' (JStr ''a'') presence_room1 = presence_room1"
proof -
  let ?ini = "[Connect [], Subscribe [''room1'', ''room2'']]"
  let ?evs = "[Publish ''room1'' (JStr ''a''), Publish ''room2'' (JStr ''x''),
               ChannelSubscribed ''room2'', Publish ''room1'' (JStr ''b'')]"
  let ?s = "echo_reach ?ini (LaravelEchoAdapter_new example_echo)"
  let ?pini = "[Common (Connect []), Common (Subscribe [''room1'', ''room2''])]"
  let ?pevs = "[Common (Publish ''room1'' (JStr ''a'')), Common (Publish ''room2'' (JStr ''x'')),
                Common (ChannelSubscribed ''room2''), Common (Publish ''room1'' (JStr ''b''))]"
  let ?p = "presence_reach ?pini presence_fresh"
  let ?qini = "[Common (Connect []), Common (Subscribe [''room1''])]"
  let ?qevs = "[Common (Publish ''room1'' (JStr ''a''))]"
  let ?q = "presence_reach ?qini (presence_hook (JFunThrows ''boom''))"
  have s: "''room1'' \<in> bound ?s" "''room1'' \<notin> readyChannels ?s" "\<forall>ev \<in> set ?evs. keeps ''room1'' ev"
    "queuedMessages ''room1'' ?s = []" "whispers_on ''y-webrtc.room1'' (trace ?s) = []"
    "published ''room1'' ?evs = [JStr ''a'', JStr ''b'']"
    by (simp_all add: eval_defs)
  have p: "''room1'' \<in> bound ?p" "''room1'' \<notin> readyChannels ?p"
    "\<forall>ev \<in> set ?pevs. presence_keeps ''room1'' ev"
    "queuedMessages ''room1'' ?p = []" "whispers_on ''y-webrtc.room1'' (trace ?p) = []"
    "presence_published ''room1'' ?pevs = [JStr ''a'', JStr ''b'']"
    "returns (onSubscribed (callbacks (presence_reach ?pevs ?p)))"
    by (simp_all add: eval_defs returns_def)
  have q: "''room1'' \<in> bound ?q" "''room1'' \<notin> readyChannels ?q"
    "\<forall>ev \<in> set ?qevs. presence_keeps ''room1'' ev"
    "queuedMessages ''room1'' ?q = []" "whispers_on ''y-webrtc.room1'' (trace ?q) = []"
    "presence_published ''room1'' ?qevs = [JStr ''a'']"
    "\<not> returns (onSubscribed (callbacks (presence_reach ?qevs ?q)))"
    by (simp_all add: eval_defs returns_def)
  have n: "LaravelEchoPresenceAdapter_new example_echo example_callbacks = Inr presence_fresh"
    "LaravelEchoPresenceAdapter_new example_echo (JObj [(''onSubscribed'', JFunThrows ''boom'')])
       = Inr (presence_hook (JFunThrows ''boom''))"
    by (simp_all add: presence_fresh_new presence_hook_new)
  have u: "''room2'' \<notin> bound echo_room1" "''room2'' \<notin> bound presence_room1"
    by (simp_all add: bound_def echo_room1_fields presence_room1_fields)
  have g: "getChannelName ''room1'' = ''y-webrtc.room1''" by (simp add: getChannelName_def)
  note t1 = queued_publishes_flushed_in_order
    [of ?s ?ini example_echo "''room1''" ?evs example_echo example_callbacks presence_fresh
        ?p ?pini ?pevs "presence_reach ?pevs ?p" echo_room1 "JStr ''a''" presence_room1]
  note t2 = queued_publishes_flushed_in_order
    [of ?s ?ini example_echo "''room1''" ?evs example_echo
        "JObj [(''onSubscribed'', JFunThrows ''boom'')]" "presence_hook (JFunThrows ''boom'')"
        ?q ?qini ?qevs "presence_reach ?qevs ?q" echo_room1 "JStr ''a''" presence_room1]
  note t3 = queued_publishes_flushed_in_order
    [where T = "''room2''" and u = echo_room1 and d = "JStr ''a''" and v = presence_room1]
  have a: "\<exists>s'. echo_step (ChannelSubscribed ''room1'') (echo_reach ?evs ?s) = Inr s' \<and>
          whispers_on ''y-webrtc.room1'' (trace s') = [JStr ''a'', JStr ''b''] \<and>
          messageQueue s' ''room1'' = None \<and> ''room1'' \<in> readyChannels s'"
    using t1 s by (simp only: g) auto
  have b: "\<exists>p'. presence_step (Common (ChannelSubscribed ''room1'')) (presence_reach ?pevs ?p) = Inr p' \<and>
          whispers_on ''y-webrtc.room1'' (trace p') = [JStr ''a'', JStr ''b''] \<and>
          messageQueue p' ''room1'' = None \<and> ''room1'' \<in> readyChannels p'"
    using t1 p n(1) by (simp only: g) auto
  have c: "\<exists>x p'. presence_step (Common (ChannelSubscribed ''room1'')) (presence_reach ?qevs ?q) = Inl (x, p') \<and>
          whispers_on ''y-webrtc.room1'' (trace p') = [] \<and>
          queuedMessages ''room1'' p' = [JStr ''a''] \<and> ''room1'' \<in> readyChannels p'"
    using t2 q n(2) by (simp only: g) auto
  have d: "publish ''room2'' (JStr ''a'') echo_room1 = echo_room1"
    "publish ''room2'' (JStr ''a'') presence_room1 = presence_room1"
    using t3 [THEN conjunct2, THEN conjunct2, THEN conjunct1] u(1)
      t3 [THEN conjunct2, THEN conjunct2, THEN conjunct2] u(2) by simp_all
  from a b c d show ?thesis by blast
qed

text \<open>
  The claim as stated fails for a topic that has no channel yet: \<^verbatim>\<open>publish\<close> returns at
  \<^verbatim>\<open>if (!channel) return\<close>, and when the topic is subscribed later and its ready signal
  fires, nothing is sent: the only effect of the whole run is the opening of the channel.
\<close>

theorem publish_without_channel_is_dropped:
  "map_sum id trace
     (echo_run [Connect [], Publish ''room1'' (JStr ''a''), Subscribe [''room1''], ChannelSubscribed ''room1'']
        (LaravelEchoAdapter_new example_echo)) = Inr [EchoPrivate ''y-webrtc.room1'']
   \<and> ''room1'' \<notin> readyChannels (connect [] (LaravelEchoAdapter_new example_echo))"
  by (simp add: echo_run_def echo_subscribe_def echo_subscribe_topic_def connect_def
      setTimeout_def LaravelEchoAdapter_new_def example_echo_def log_def getChannelName_def
      publish_def echo_on_subscribed_def flush_def queuedMessages_def Let_def)

subsection \<open>The three states of a topic\<close>

text \<open>
  Claim C2, as amended. In every state that \<^verbatim>\<open>LaravelEchoAdapter\<close> reaches from a new
  instance (by calls of \<^verbatim>\<open>connect\<close>, \<^verbatim>\<open>subscribe\<close>, \<^verbatim>\<open>unsubscribe\<close>, \<^verbatim>\<open>publish\<close>,
  \<^verbatim>\<open>disconnect\<close>, \<^verbatim>\<open>destroy\<close>, registrations of listeners, timers, and callbacks of the
  transport on the channels the adapter holds, whether they return or throw), every ready
  topic has a channel, and a topic with a queue has a channel and is not ready. In every state
  that \<^verbatim>\<open>LaravelEchoPresenceAdapter\<close> reaches (by the same turns, the callbacks of a presence
  channel and the setters of the hooks), every ready topic has a channel and a topic with a
  queue has a channel; a topic with a queue is not ready provided that the hook
  \<^verbatim>\<open>onSubscribed\<close> of the constructor, and every hook that \<^verbatim>\<open>onSubscribed(cb)\<close> wires on the
  way, is falsy or a function that returns.
\<close>

theorem topic_states_invariant:
  "(s = echo_reach evs (LaravelEchoAdapter_new e) \<longrightarrow>
      (T \<in> readyChannels s \<longrightarrow> T \<in> bound s) \<and>
      (messageQueue s T \<noteq> None \<longrightarrow> T \<in> bound s \<and> T \<notin> readyChannels s))
   \<and> (LaravelEchoPresenceAdapter_new e' cbs = Inr p0 \<and> p = presence_reach pevs p0 \<longrightarrow>
      (T \<in> readyChannels p \<longrightarrow> T \<in> bound p) \<and>
      (messageQueue p T \<noteq> None \<longrightarrow> T \<in> bound p) \<and>
      (returns (onSubscribed (callbacks p0)) \<and> (\<forall>ev \<in> set pevs. wires_returning ev) \<and>
       messageQueue p T \<noteq> None \<longrightarrow> T \<notin> readyChannels p))"
proof (intro conjI impI)
  assume r: "s = echo_reach evs (LaravelEchoAdapter_new e)"
  have i: "gate_inv s" unfolding r by (rule echo_reached)
  { assume "T \<in> readyChannels s" with i show "T \<in> bound s" by (simp add: gate_inv_def) }
  { assume "messageQueue s T \<noteq> None" with i show "T \<in> bound s" by (auto simp: gate_inv_def) }
  { assume "messageQueue s T \<noteq> None" with i show "T \<notin> readyChannels s" by (auto simp: gate_inv_def) }
next
  assume a: "LaravelEchoPresenceAdapter_new e' cbs = Inr p0 \<and> p = presence_reach pevs p0"
  then have i: "presence_bound_inv p" by (auto intro: presence_reached)
  { assume "T \<in> readyChannels p" with i show "T \<in> bound p"
      by (simp add: presence_bound_inv_def bound_inv_def) }
  { assume "messageQueue p T \<noteq> None" with i show "T \<in> bound p"
      by (auto simp: presence_bound_inv_def bound_inv_def) }
  { assume "returns (onSubscribed (callbacks p0)) \<and> (\<forall>ev \<in> set pevs. wires_returning ev) \<and>
       messageQueue p T \<noteq> None"
    with a have "gate_inv p" "messageQueue p T \<noteq> None" by (auto intro: presence_reached_returning)
    then show "T \<notin> readyChannels p" by (auto simp: gate_inv_def) }
qed

theorem topic_states_invariant_witness:
  "''room1'' \<in> bound (publish ''room1'' (JStr ''a'') echo_room1)
   \<and> ''room1'' \<notin> readyChannels (publish ''room1'' (JStr ''a'') echo_room1)
   \<and> ''room1'' \<in> bound (publish ''room1'' (JStr ''a'') presence_room1)
   \<and> ''room1'' \<notin> readyChannels (publish ''room1'' (JStr ''a'') presence_room1)
   \<and> ''room1'' \<in> bound (presence_reach [Common (Connect []), Common (Subscribe [''room1'']),
         Common (Publish ''room1'' (JStr ''a'')), Common (ChannelSubscribed ''room1'')]
         (presence_hook (JFunThrows ''boom'')))"
proof -
  let ?es = "[Connect [], Subscribe [''room1''], Publish ''room1'' (JStr ''a'')]"
  let ?ps = "[Common (Connect []), Common (Subscribe [''room1'']), Common (Publish ''room1'' (JStr ''a''))]"
  let ?qs = "[Common (Connect []), Common (Subscribe [''room1'']),
         Common (Publish ''room1'' (JStr ''a'')), Common (ChannelSubscribed ''room1'')]"
  let ?q = "presence_reach ?qs (presence_hook (JFunThrows ''boom''))"
  have e: "publish ''room1'' (JStr ''a'') echo_room1 = echo_reach ?es (LaravelEchoAdapter_new example_echo)"
    by (simp add: echo_reach_def echo_room1_def)
  have p: "LaravelEchoPresenceAdapter_new example_echo example_callbacks = Inr presence_fresh"
    "publish ''room1'' (JStr ''a'') presence_room1 = presence_reach ?ps presence_fresh"
    "returns (onSubscribed (callbacks presence_fresh))"
    "\<forall>ev \<in> set ?ps. wires_returning ev"
    by (simp_all add: presence_fresh_new presence_reach_def presence_room1_def returns_def
        presence_fresh_def)
  have n: "LaravelEchoPresenceAdapter_new example_echo (JObj [(''onSubscribed'', JFunThrows ''boom'')])
       = Inr (presence_hook (JFunThrows ''boom''))"
    by (simp add: presence_hook_new)
  have q: "messageQueue (publish ''room1'' (JStr ''a'') echo_room1) ''room1'' \<noteq> None"
          "messageQueue (publish ''room1'' (JStr ''a'') presence_room1) ''room1'' \<noteq> None"
          "''room1'' \<in> readyChannels ?q"
    by (simp_all add: publish_def echo_room1_fields presence_room1_fields eval_defs)
  note t1 = topic_states_invariant
      [of "publish ''room1'' (JStr ''a'') echo_room1" ?es example_echo "''room1''"
          example_echo example_callbacks presence_fresh
          "publish ''room1'' (JStr ''a'') presence_room1" ?ps]
  note t2 = topic_states_invariant
      [where T = "''room1''" and e' = example_echo
         and cbs = "JObj [(''onSubscribed'', JFunThrows ''boom'')]"
         and ?p0.0 = "presence_hook (JFunThrows ''boom'')" and p = ?q and pevs = ?qs]
  have a: "''room1'' \<in> bound (publish ''room1'' (JStr ''a'') echo_room1)"
    "''room1'' \<notin> readyChannels (publish ''room1'' (JStr ''a'') echo_room1)"
    using t1 e q(1) by blast+
  have b: "''room1'' \<in> bound (publish ''room1'' (JStr ''a'') presence_room1)"
    "''room1'' \<notin> readyChannels (publish ''room1'' (JStr ''a'') presence_room1)"
    using t1 p q(2) by blast+
  have c: "''room1'' \<in> bound ?q"
    using t2 n q(3) by blast
  from a b c show ?thesis by blast
qed

text \<open>
  The claim as stated fails in the presence adapter when the call of the hook
  \<^verbatim>\<open>onSubscribed\<close> throws, as with \<^verbatim>\<open>new LaravelEchoPresenceAdapter(echo, { onSubscribed: 5 })\<close>:
  after \<^verbatim>\<open>connect\<close>, \<^verbatim>\<open>subscribe(['room1'])\<close> and \<^verbatim>\<open>publish('room1', 'a')\<close> the ready signal
  ends in a TypeError behind \<^verbatim>\<open>readyChannels.add(topic)\<close>, and the topic is ready while its
  queue still holds the message; nothing has been sent.
\<close>

theorem throwing_hook_leaves_ready_topic_with_queue:
  "LaravelEchoPresenceAdapter_new example_echo (JObj [(''onSubscribed'', JNum 5)])
     = Inr (presence_hook (JNum 5))
   \<and> presence_step (Common (ChannelSubscribed ''room1''))
       (presence_reach [Common (Connect []), Common (Subscribe [''room1'']),
                        Common (Publish ''room1'' (JStr ''a''))] (presence_hook (JNum 5)))
     = Inl (TypeError,
            presence_reach [Common (Connect []), Common (Subscribe [''room1'']),
                            Common (Publish ''room1'' (JStr ''a'')),
                            Common (ChannelSubscribed ''room1'')] (presence_hook (JNum 5)))
   \<and> ''room1'' \<in> readyChannels
        (presence_reach [Common (Connect []), Common (Subscribe [''room1'']),
                         Common (Publish ''room1'' (JStr ''a'')),
                         Common (ChannelSubscribed ''room1'')] (presence_hook (JNum 5)))
   \<and> messageQueue
        (presence_reach [Common (Connect []), Common (Subscribe [''room1'']),
                         Common (Publish ''room1'' (JStr ''a'')),
                         Common (ChannelSubscribed ''room1'')] (presence_hook (JNum 5))) ''room1''
     = Some [JStr ''a'']
   \<and> whispers_on ''y-webrtc.room1'' (trace
        (presence_reach [Common (Connect []), Common (Subscribe [''room1'']),
                         Common (Publish ''room1'' (JStr ''a'')),
                         Common (ChannelSubscribed ''room1'')] (presence_hook (JNum 5)))) = []"
  by (simp add: eval_defs LaravelEchoPresenceAdapter_new_def get_prop_def js_or_def)

subsection \<open>connect\<close>

text \<open>
  Claim C3. In both adapters \<^verbatim>\<open>connect(url)\<close> sets \<open>shouldConnect\<close> and \<open>connected\<close>
  whatever the state, and emits nothing itself: the trace is unchanged and one task is
  appended to the pending timers. A listener registered for \<^verbatim>\<open>connect\<close> right after the
  call is notified when the pending timers have fired, and no timer is left. When no other
  timer was pending, the one timer notifies exactly the listeners registered at that moment.
\<close>

theorem connect_defers_emission:
  "shouldConnect (connect u s) \<and> connected (connect u s)
   \<and> trace (connect u s) = trace s
   \<and> timers (connect u s) = timers s @ [EmitConnect]
   \<and> Notify f ''connect'' [] \<in> set (trace (all_timers_fire (on ''connect'' f (connect u s))))
   \<and> timers (all_timers_fire (on ''connect'' f (connect u s))) = []
   \<and> (timers s = [] \<longrightarrow>
        trace (timer_fires (on ''connect'' f (connect u s))) =
          trace s @ map (\<lambda>g. Notify g ''connect'' []) (observers (on ''connect'' f s) ''connect''))
   \<and> shouldConnect (connect u p) \<and> connected (connect u p)
   \<and> trace (connect u p) = trace p
   \<and> timers (connect u p) = timers p @ [EmitConnect]
   \<and> Notify f ''connect'' [] \<in> set (trace (all_timers_fire (on ''connect'' f (connect u p))))
   \<and> timers (all_timers_fire (on ''connect'' f (connect u p))) = []
   \<and> (timers p = [] \<longrightarrow>
        trace (timer_fires (on ''connect'' f (connect u p))) =
          trace p @ map (\<lambda>g. Notify g ''connect'' []) (observers (on ''connect'' f p) ''connect''))"
  for s :: LaravelEchoAdapter and p :: LaravelEchoPresenceAdapter
  using connect_deferred [of u s f] connect_deferred [of u p f] by blast

theorem connect_defers_emission_witness:
  "trace (connect [] (LaravelEchoAdapter_new example_echo)) = []
   \<and> trace (timer_fires (on ''connect'' 7 (connect [] (LaravelEchoAdapter_new example_echo))))
       = [Notify 7 ''connect'' []]
   \<and> trace (connect [] presence_fresh) = []
   \<and> trace (timer_fires (on ''connect'' 7 (connect [] presence_fresh))) = [Notify 7 ''connect'' []]"
proof -
  have t: "timers (LaravelEchoAdapter_new example_echo) = []" "timers presence_fresh = []"
    by (simp_all add: LaravelEchoAdapter_new_def presence_fresh_def)
  show ?thesis
    using connect_defers_emission [of "[]" "LaravelEchoAdapter_new example_echo" 7 presence_fresh] t
    by (simp add: on_def LaravelEchoAdapter_new_def presence_fresh_def)
qed

subsection \<open>A subscription error\<close>

text \<open>
  Claim C4. The error handler of a channel changes nothing but the trace. In
  \<^verbatim>\<open>LaravelEchoAdapter\<close> it writes the error to the console; the class has no hook that could
  be wired. In \<^verbatim>\<open>LaravelEchoPresenceAdapter\<close> it writes the error to the console and then
  calls \<^verbatim>\<open>onError(error, channelName)\<close> if the hook is wired. The channel, the ready set,
  the queue and the roster stay as they were, and no channel is opened again.
\<close>

theorem subscription_error_changes_no_state:
  "echo_on_error channelName err s =
     s\<lparr>trace := trace s @
        [ConsoleError (''LaravelEchoAdapter: Error subscribing to '' @ channelName @ '':'') err]\<rparr>
   \<and> presence_on_error channelName err p =
     p\<lparr>trace := trace p @
        ConsoleError (''LaravelEchoPresenceAdapter: Error subscribing to '' @ channelName @ '':'') err
        # (if truthy (onError (callbacks p)) then [CallOnError (onError (callbacks p)) err channelName]
           else [])\<rparr>"
  by (simp add: echo_on_error_def presence_on_error_def log_def Let_def)

theorem subscription_error_changes_no_state_witness:
  "channels (echo_on_error ''y-webrtc.room1'' (JStr ''denied'') echo_room1) = [(''room1'', ''y-webrtc.room1'')]
   \<and> trace (echo_on_error ''y-webrtc.room1'' (JStr ''denied'') echo_room1) =
       [EchoPrivate ''y-webrtc.room1'',
        ConsoleError ''LaravelEchoAdapter: Error subscribing to y-webrtc.room1:'' (JStr ''denied'')]
   \<and> channels (presence_on_error ''y-webrtc.room1'' (JStr ''denied'') presence_room1) = [(''room1'', ''y-webrtc.room1'')]
   \<and> trace (presence_on_error ''y-webrtc.room1'' (JStr ''denied'') presence_room1) =
       [EchoJoin ''y-webrtc.room1'',
        ConsoleError ''LaravelEchoPresenceAdapter: Error subscribing to y-webrtc.room1:'' (JStr ''denied''),
        CallOnError (JFun 1) (JStr ''denied'') ''y-webrtc.room1'']"
  using subscription_error_changes_no_state
    [of "''y-webrtc.room1''" "JStr ''denied''" echo_room1 presence_room1]
  by (simp add: echo_room1_fields presence_room1_fields)

subsection \<open>The configuration of the Echo adapters\<close>

text \<open>
  Claim C5, as amended. The Echo instance is the property \<^verbatim>\<open>echo\<close> of the configuration
  object; a property that is absent reads as \<^verbatim>\<open>undefined\<close>, which is falsy. For the type
  \<^verbatim>\<open>'echo'\<close> the factory throws the error \<^verbatim>\<open>Laravel Echo instance is required for ...\<close>
  when the instance is falsy and returns a new \<^verbatim>\<open>LaravelEchoAdapter\<close> on it otherwise. For
  the type \<^verbatim>\<open>'echo-presence'\<close> it throws the corresponding error when the instance is falsy,
  and returns a new \<^verbatim>\<open>LaravelEchoPresenceAdapter\<close> when the instance is truthy and
  \<^verbatim>\<open>callbacks\<close> is not \<^verbatim>\<open>null\<close>.
\<close>

theorem echo_config_needs_instance:
  "(js_get v ''type'' = JStr ''echo'' \<longrightarrow>
      (\<not> truthy (js_get v ''echo'') \<longrightarrow>
         createSignalingAdapter (Value v) =
           Inl (Error ''Laravel Echo instance is required for LaravelEchoAdapter''))
    \<and> (truthy (js_get v ''echo'') \<longrightarrow>
         createSignalingAdapter (Value v) = Inr (Echo (LaravelEchoAdapter_new (js_get v ''echo'')))))
   \<and> (js_get v ''type'' = JStr ''echo-presence'' \<longrightarrow>
      (\<not> truthy (js_get v ''echo'') \<longrightarrow>
         createSignalingAdapter (Value v) =
           Inl (Error ''Laravel Echo instance is required for LaravelEchoPresenceAdapter''))
    \<and> (truthy (js_get v ''echo'') \<and> js_get v ''callbacks'' \<noteq> JNull \<longrightarrow>
         (\<exists>a. LaravelEchoPresenceAdapter_new (js_get v ''echo'') (js_get v ''callbacks'') = Inr a
            \<and> createSignalingAdapter (Value v) = Inr (Presence a))))"
proof (intro conjI impI)
  assume "truthy (js_get v ''echo'') \<and> js_get v ''callbacks'' \<noteq> JNull"
    and t: "js_get v ''type'' = JStr ''echo-presence''"
  then have e: "truthy (js_get v ''echo'')" and c: "js_get v ''callbacks'' \<noteq> JNull" by simp_all
  from presence_new_ok [OF c] obtain a where
    a: "LaravelEchoPresenceAdapter_new (js_get v ''echo'') (js_get v ''callbacks'') = Inr a"
    by blast
  show "\<exists>a. LaravelEchoPresenceAdapter_new (js_get v ''echo'') (js_get v ''callbacks'') = Inr a
            \<and> createSignalingAdapter (Value v) = Inr (Presence a)"
    by (simp add: create_presence [OF t] e a del: createSignalingAdapter.simps js_get.simps)
qed (simp_all add: create_echo create_presence del: createSignalingAdapter.simps js_get.simps)

theorem echo_config_needs_instance_witness:
  "createSignalingAdapter (Value (JObj [(''type'', JStr ''echo'')])) =
     Inl (Error ''Laravel Echo instance is required for LaravelEchoAdapter'')
   \<and> createSignalingAdapter (Value (JObj [(''type'', JStr ''echo''), (''echo'', example_echo)])) =
     Inr (Echo (LaravelEchoAdapter_new example_echo))
   \<and> createSignalingAdapter (Value (JObj [(''type'', JStr ''echo-presence'')])) =
     Inl (Error ''Laravel Echo instance is required for LaravelEchoPresenceAdapter'')
   \<and> createSignalingAdapter
       (Value (JObj [(''type'', JStr ''echo-presence''), (''echo'', example_echo),
                     (''callbacks'', example_callbacks)])) = Inr (Presence presence_fresh)"
proof -
  let ?c1 = "JObj [(''type'', JStr ''echo'')]"
  let ?c2 = "JObj [(''type'', JStr ''echo''), (''echo'', example_echo)]"
  let ?c3 = "JObj [(''type'', JStr ''echo-presence'')]"
  let ?c4 = "JObj [(''type'', JStr ''echo-presence''), (''echo'', example_echo), (''callbacks'', example_callbacks)]"
  have g: "js_get ?c1 ''type'' = JStr ''echo''" "\<not> truthy (js_get ?c1 ''echo'')"
          "js_get ?c2 ''type'' = JStr ''echo''" "js_get ?c2 ''echo'' = example_echo"
          "js_get ?c3 ''type'' = JStr ''echo-presence''" "\<not> truthy (js_get ?c3 ''echo'')"
          "js_get ?c4 ''type'' = JStr ''echo-presence''" "js_get ?c4 ''echo'' = example_echo"
          "js_get ?c4 ''callbacks'' = example_callbacks"
    by simp_all
  have t: "truthy example_echo" "example_callbacks \<noteq> JNull"
    by (simp_all add: example_echo_def example_callbacks_def)
  show ?thesis
    using echo_config_needs_instance [of ?c1] echo_config_needs_instance [of ?c2]
      echo_config_needs_instance [of ?c3] echo_config_needs_instance [of ?c4]
    by (simp add: g t presence_fresh_new del: createSignalingAdapter.simps js_get.simps)
qed

text \<open>
  The claim as stated fails for \<^verbatim>\<open>{ type: 'echo-presence', echo, callbacks: null }\<close>: the
  instance is present, the default \<^verbatim>\<open>callbacks = {}\<close> of the constructor does not replace
  \<^verbatim>\<open>null\<close>, and \<^verbatim>\<open>callbacks.onHere\<close> throws a TypeError.
\<close>

theorem presence_config_with_null_callbacks_throws:
  "createSignalingAdapter
     (Value (JObj [(''type'', JStr ''echo-presence''), (''echo'', JObj [(''options'', JObj [])]),
                   (''callbacks'', JNull)])) = Inl TypeError
   \<and> truthy (JObj [(''options'', JObj [])])"
  by (simp add: LaravelEchoPresenceAdapter_new_def get_prop_def)

subsection \<open>destroy\<close>



subsection \<open>The roster\<close>

text \<open>
  Claim C7. With \<^verbatim>\<open>getPresenceMembers(T)\<close> as the roster of \<open>T\<close>: the leaving handler of
  the channel of \<open>T\<close> keeps, in their order, the entries whose id differs from the id of
  the member that leaves, and removes the others; when no entry has that id the roster
  is what it was (a topic without roster gets an empty one, which reads the same); the
  roster of another topic is not touched; and \<^verbatim>\<open>onLeaving(member)\<close> is called if wired.
\<close>

theorem leaving_removes_entries_with_the_id:
  "getPresenceMembers T (presence_on_leaving T member p) =
     filter (\<lambda>m. id' m \<noteq> id' member) (getPresenceMembers T p)
   \<and> ((\<forall>m \<in> set (getPresenceMembers T p). id' m \<noteq> id' member) \<longrightarrow>
        getPresenceMembers T (presence_on_leaving T member p) = getPresenceMembers T p)
   \<and> (T' \<noteq> T \<longrightarrow> presenceMembers (presence_on_leaving T member p) T' = presenceMembers p T')
   \<and> trace (presence_on_leaving T member p) =
       trace p @ (if truthy (onLeaving (callbacks p))
                  then [CallOnLeaving (onLeaving (callbacks p)) member] else [])"
  by (simp add: presence_on_leaving_def getPresenceMembers_def log_def Let_def)

theorem leaving_removes_entries_with_the_id_witness:
  "getPresenceMembers ''room1''
     (presence_on_leaving ''room1'' alice (presence_on_here ''room1'' [alice, bob] presence_room1)) = [bob]
   \<and> getPresenceMembers ''room1''
     (presence_on_leaving ''room1'' carol (presence_on_here ''room1'' [alice, bob] presence_room1)) = [alice, bob]
   \<and> presenceMembers
     (presence_on_leaving ''room1'' alice (presence_on_here ''room1'' [alice, bob] presence_room1)) ''room2'' = None
   \<and> trace (presence_on_leaving ''room1'' alice (presence_on_here ''room1'' [alice, bob] presence_room1)) =
       [EchoJoin ''y-webrtc.room1'', CallOnLeaving (JFun 3) alice]"
  using leaving_removes_entries_with_the_id
      [of "''room1''" alice "presence_on_here ''room1'' [alice, bob] presence_room1" "''room2''"]
    leaving_removes_entries_with_the_id
      [of "''room1''" carol "presence_on_here ''room1'' [alice, bob] presence_room1" "''room2''"]
  by (simp add: roster_room1 presence_room1_fields member_ids)

text \<open>
  Claim C8. \<^verbatim>\<open>getPresenceMembers(T)\<close> returns the roster stored for \<open>T\<close>, and the empty list
  when none is stored; the result is a list in every case. In every state in which a run from
  a new instance ends, and in every state that the adapter reaches by turns that return or
  throw, a topic without channel has no roster, so the empty list is returned for it: for a
  topic that was never subscribed, and after \<^verbatim>\<open>unsubscribe\<close> with the topic among its
  arguments and after \<^verbatim>\<open>disconnect\<close>, which both return and leave the topic without channel.
\<close>

theorem getPresenceMembers_never_absent:
  "(presenceMembers p T = Some r \<longrightarrow> getPresenceMembers T p = r)
   \<and> (presenceMembers p T = None \<longrightarrow> getPresenceMembers T p = [])
   \<and> (LaravelEchoPresenceAdapter_new e cbs = Inr p0 \<and>
      (presence_run evs p0 = Inr p' \<or> p' = presence_reach evs p0) \<longrightarrow>
        (T \<notin> bound p' \<longrightarrow> getPresenceMembers T p' = []) \<and>
        (T \<in> set topics \<longrightarrow>
           (\<exists>u. presence_step (Common (Unsubscribe topics)) p' = Inr u \<and> T \<notin> bound u \<and>
                getPresenceMembers T u = [])) \<and>
        (\<exists>u. presence_step (Common Disconnect) p' = Inr u \<and> T \<notin> bound u \<and>
             getPresenceMembers T u = []))"
proof (intro conjI impI)
  assume "LaravelEchoPresenceAdapter_new e cbs = Inr p0 \<and>
      (presence_run evs p0 = Inr p' \<or> p' = presence_reach evs p0)"
  then have "LaravelEchoPresenceAdapter_new e cbs = Inr p0" "p' = presence_reach evs p0"
    by (auto dest: presence_run_reach)
  then have i: "presence_bound_inv p'" by (auto intro: presence_reached)
  { assume "T \<notin> bound p'"
    with i show "getPresenceMembers T p' = []" by (rule unbound_no_roster) }
  { assume t: "T \<in> set topics"
    from presence_unsubscribe_unbinds [OF i, of topics] obtain u where
      u: "presence_unsubscribe topics p' = Inr u" "presence_bound_inv u" "bound u = bound p' - set topics"
      by blast
    with t have "T \<notin> bound u" by simp
    with u show "\<exists>u. presence_step (Common (Unsubscribe topics)) p' = Inr u \<and> T \<notin> bound u \<and>
                getPresenceMembers T u = []"
      by (simp add: unbound_no_roster) }
  from i have "truthy (echo p') \<or> channels p' = []" by (simp add: presence_bound_inv_def bound_inv_def)
  from presence_disconnect_ok [OF this]
  show "\<exists>u. presence_step (Common Disconnect) p' = Inr u \<and> T \<notin> bound u \<and> getPresenceMembers T u = []"
    by (auto simp: bound_def getPresenceMembers_def)
qed (simp_all add: getPresenceMembers_def)

theorem getPresenceMembers_never_absent_witness:
  "getPresenceMembers ''room1'' (presence_on_here ''room1'' [alice, bob] presence_room1) = [alice, bob]
   \<and> getPresenceMembers ''room2'' (presence_on_here ''room1'' [alice, bob] presence_room1) = []
   \<and> presence_step (Common (Unsubscribe [''room1'']))
       (presence_on_here ''room1'' [alice, bob] presence_room1) =
       Inr ((presence_on_here ''room1'' [alice, bob] presence_room1)
              \<lparr>trace := [EchoJoin ''y-webrtc.room1'', EchoLeave ''y-webrtc.room1''],
                channels := [], readyChannels := {}, messageQueue := Map.empty,
                presenceMembers := Map.empty\<rparr>)
   \<and> getPresenceMembers ''room1''
       ((presence_on_here ''room1'' [alice, bob] presence_room1)
              \<lparr>trace := [EchoJoin ''y-webrtc.room1'', EchoLeave ''y-webrtc.room1''],
                channels := [], readyChannels := {}, messageQueue := Map.empty,
                presenceMembers := Map.empty\<rparr>) = []
   \<and> (\<exists>u. presence_step (Common Disconnect)
            (presence_on_here ''room1'' [alice, bob] presence_room1) = Inr u \<and>
          getPresenceMembers ''room1'' u = [])"
proof -
  let ?p = "presence_on_here ''room1'' [alice, bob] presence_room1"
  let ?u = "?p\<lparr>trace := [EchoJoin ''y-webrtc.room1'', EchoLeave ''y-webrtc.room1''],
                channels := [], readyChannels := {}, messageQueue := Map.empty,
                presenceMembers := Map.empty\<rparr>"
  let ?evs = "[Common (Connect []), Common (Subscribe [''room1'']), ChannelHere ''room1'' [alice, bob]]"
  have m: "presenceMembers ?p ''room1'' = Some [alice, bob]" "presenceMembers ?p ''room2'' = None"
    by (simp_all add: presence_on_here_def presence_room1_fields log_def)
  have r: "LaravelEchoPresenceAdapter_new example_echo example_callbacks = Inr presence_fresh"
    "?p = presence_reach ?evs presence_fresh"
    "''room2'' \<notin> bound ?p"
    by (simp_all add: presence_fresh_new presence_reach_def presence_room1_def [symmetric]
        presence_room1_fields bound_def presence_on_here_def log_def)
  have s: "presence_step (Common (Unsubscribe [''room1''])) ?p = Inr ?u"
    by (simp add: unsubscribed_room1)
  note t1 = getPresenceMembers_never_absent [of ?p "''room1''" "[alice, bob]" example_echo
      example_callbacks presence_fresh ?evs ?p "[''room1'']"]
  note t2 = getPresenceMembers_never_absent [of ?p "''room2''" "[]" example_echo
      example_callbacks presence_fresh ?evs ?p "[]"]
  have a: "getPresenceMembers ''room1'' ?p = [alice, bob]" using t1 m(1) by blast
  have b: "getPresenceMembers ''room2'' ?p = []" using t2 r by blast
  have "\<exists>u. presence_step (Common (Unsubscribe [''room1''])) ?p = Inr u \<and> ''room1'' \<notin> bound u \<and>
          getPresenceMembers ''room1'' u = []"
    using t1 r(1,2) by simp
  then have c: "getPresenceMembers ''room1'' ?u = []" unfolding s by blast
  have d: "\<exists>u. presence_step (Common Disconnect) ?p = Inr u \<and> getPresenceMembers ''room1'' u = []"
    using t1 r(1,2) by blast
  from a b c d s show ?thesis by blast
qed

text \<open>
  Claim C9. The joining handler appends the member whatever the roster holds: the
  number of entries with the id of the member grows by one. A leaving event with that id
  afterwards leaves no entry with it.
\<close>

theorem joining_does_not_deduplicate:
  "getPresenceMembers T (presence_on_joining T member p) = getPresenceMembers T p @ [member]
   \<and> length (filter (\<lambda>m. id' m = id' member) (getPresenceMembers T (presence_on_joining T member p))) =
       Suc (length (filter (\<lambda>m. id' m = id' member) (getPresenceMembers T p)))
   \<and> filter (\<lambda>m. id' m = id' member)
        (getPresenceMembers T (presence_on_leaving T member (presence_on_joining T member p))) = []"
  by (simp add: presence_on_joining_def presence_on_leaving_def getPresenceMembers_def log_def Let_def)

theorem joining_does_not_deduplicate_witness:
  "getPresenceMembers ''room1''
     (presence_on_joining ''room1'' alice (presence_on_here ''room1'' [alice, bob] presence_room1))
     = [alice, bob, alice]
   \<and> getPresenceMembers ''room1''
     (presence_on_leaving ''room1'' alice
        (presence_on_joining ''room1'' alice (presence_on_here ''room1'' [alice, bob] presence_room1)))
     = [bob]"
proof -
  let ?p = "presence_on_here ''room1'' [alice, bob] presence_room1"
  have j: "getPresenceMembers ''room1'' (presence_on_joining ''room1'' alice ?p) = [alice, bob, alice]"
    using joining_does_not_deduplicate [of "''room1''" alice ?p] by (simp add: roster_room1)
  have "getPresenceMembers ''room1'' (presence_on_leaving ''room1'' alice (presence_on_joining ''room1'' alice ?p))
      = filter (\<lambda>m. id' m \<noteq> id' alice) [alice, bob, alice]"
    by (simp add: presence_on_leaving_def getPresenceMembers_def log_def Let_def j [unfolded getPresenceMembers_def])
  then show ?thesis using j by (simp add: member_ids)
qed

subsection \<open>The default of the factory\<close>

text \<open>
  Claim C10, as amended. For a configuration that is not an adapter instance, not a string
  and not an object whose \<^verbatim>\<open>type\<close> is \<^verbatim>\<open>'echo'\<close> or \<^verbatim>\<open>'echo-presence'\<close>, the factory returns
  a new \<^verbatim>\<open>DefaultSignalingAdapter\<close>. The factory throws exactly for an object of type
  \<^verbatim>\<open>'echo'\<close> or \<^verbatim>\<open>'echo-presence'\<close> whose Echo instance is falsy, and for an object of type
  \<^verbatim>\<open>'echo-presence'\<close> whose \<^verbatim>\<open>callbacks\<close> is \<^verbatim>\<open>null\<close>.
\<close>

theorem factory_defaults_and_throws:
  "(typeof v \<noteq> ''string'' \<and>
    \<not> (typeof v = ''object'' \<and> v \<noteq> JNull \<and>
       (js_get v ''type'' = JStr ''echo'' \<or> js_get v ''type'' = JStr ''echo-presence'')) \<longrightarrow>
    createSignalingAdapter (Value v) = Inr (Default DefaultSignalingAdapter_new))
   \<and> ((\<exists>e. createSignalingAdapter cfg = Inl e) \<longleftrightarrow>
      (\<exists>w. cfg = Value w \<and>
         (js_get w ''type'' = JStr ''echo'' \<or> js_get w ''type'' = JStr ''echo-presence'') \<and>
         (\<not> truthy (js_get w ''echo'') \<or>
          (js_get w ''type'' = JStr ''echo-presence'' \<and> js_get w ''callbacks'' = JNull))))"
proof (rule conjI)
  show "typeof v \<noteq> ''string'' \<and>
    \<not> (typeof v = ''object'' \<and> v \<noteq> JNull \<and>
       (js_get v ''type'' = JStr ''echo'' \<or> js_get v ''type'' = JStr ''echo-presence'')) \<longrightarrow>
    createSignalingAdapter (Value v) = Inr (Default DefaultSignalingAdapter_new)"
    using create_default [of v] by blast
next
  show "(\<exists>e. createSignalingAdapter cfg = Inl e) \<longleftrightarrow>
      (\<exists>w. cfg = Value w \<and>
         (js_get w ''type'' = JStr ''echo'' \<or> js_get w ''type'' = JStr ''echo-presence'') \<and>
         (\<not> truthy (js_get w ''echo'') \<or>
          (js_get w ''type'' = JStr ''echo-presence'' \<and> js_get w ''callbacks'' = JNull)))"
  proof (cases cfg)
    case (Instance a)
    then show ?thesis by simp
  next
    case (Value v)
    consider (echo) "js_get v ''type'' = JStr ''echo''"
      | (presence) "js_get v ''type'' = JStr ''echo-presence''"
      | (other) "js_get v ''type'' \<noteq> JStr ''echo''" "js_get v ''type'' \<noteq> JStr ''echo-presence''"
      by blast
    then show ?thesis
    proof cases
      case echo
      then show ?thesis
        by (simp add: Value create_echo del: createSignalingAdapter.simps js_get.simps)
    next
      case presence
      show ?thesis
      proof (cases "js_get v ''callbacks'' = JNull")
        case True
        have "LaravelEchoPresenceAdapter_new (js_get v ''echo'') JNull = Inl TypeError"
          by (simp add: presence_new_result)
        then show ?thesis
          by (simp add: Value create_presence [OF presence] True presence
              del: createSignalingAdapter.simps js_get.simps)
      next
        case False
        from presence_new_ok [OF False] obtain a where
          "LaravelEchoPresenceAdapter_new (js_get v ''echo'') (js_get v ''callbacks'') = Inr a"
          by blast
        then show ?thesis
          by (simp add: Value create_presence [OF presence] False presence
              del: createSignalingAdapter.simps js_get.simps)
      qed
    next
      case other
      have "createSignalingAdapter (Value v) = Inr (Default DefaultSignalingAdapter_new)"
        using other by (simp del: js_get.simps)
      then show ?thesis
        using other by (simp add: Value del: js_get.simps createSignalingAdapter.simps)
    qed
  qed
qed

theorem factory_defaults_and_throws_witness:
  "createSignalingAdapter (Value JNull) = Inr (Default DefaultSignalingAdapter_new)
   \<and> createSignalingAdapter (Value (JNum 42)) = Inr (Default DefaultSignalingAdapter_new)
   \<and> createSignalingAdapter (Value (JObj [(''type'', JStr ''websocket'')])) = Inr (Default DefaultSignalingAdapter_new)
   \<and> createSignalingAdapter (Value (JObj [])) = Inr (Default DefaultSignalingAdapter_new)
   \<and> (\<exists>e. createSignalingAdapter (Value (JObj [(''type'', JStr ''echo'')])) = Inl e)"
proof -
  have "\<exists>w. Value (JObj [(''type'', JStr ''echo'')]) = Value w \<and>
         (js_get w ''type'' = JStr ''echo'' \<or> js_get w ''type'' = JStr ''echo-presence'') \<and>
         (\<not> truthy (js_get w ''echo'') \<or>
          (js_get w ''type'' = JStr ''echo-presence'' \<and> js_get w ''callbacks'' = JNull))"
    by simp
  then have "\<exists>e. createSignalingAdapter (Value (JObj [(''type'', JStr ''echo'')])) = Inl e"
    using factory_defaults_and_throws [of JNull "Value (JObj [(''type'', JStr ''echo'')])"] by blast
  moreover have "createSignalingAdapter (Value JNull) = Inr (Default DefaultSignalingAdapter_new)"
    using factory_defaults_and_throws [of JNull "Value JNull"] by simp
  moreover have "createSignalingAdapter (Value (JNum 42)) = Inr (Default DefaultSignalingAdapter_new)"
    using factory_defaults_and_throws [of "JNum 42" "Value JNull"] by simp
  moreover have "createSignalingAdapter (Value (JObj [(''type'', JStr ''websocket'')])) = Inr (Default DefaultSignalingAdapter_new)"
    using factory_defaults_and_throws [of "JObj [(''type'', JStr ''websocket'')]" "Value JNull"] by simp
  moreover have "createSignalingAdapter (Value (JObj [])) = Inr (Default DefaultSignalingAdapter_new)"
    using factory_defaults_and_throws [of "JObj []" "Value JNull"] by simp
  ultimately show ?thesis by blast
qed

text \<open>
  The claim as stated names a missing Echo instance as the only case that throws; an
  object of type \<^verbatim>\<open>'echo-presence'\<close> with an instance and \<^verbatim>\<open>callbacks: null\<close> throws as well.
\<close>

theorem presence_null_callbacks_is_a_throwing_case:
  "\<not> (\<forall>cfg. (\<exists>e. createSignalingAdapter cfg = Inl e) \<longrightarrow>
         (\<exists>w. cfg = Value w \<and>
            (js_get w ''type'' = JStr ''echo'' \<or> js_get w ''type'' = JStr ''echo-presence'') \<and>
            \<not> truthy (js_get w ''echo'')))"
proof
  assume a: "\<forall>cfg. (\<exists>e. createSignalingAdapter cfg = Inl e) \<longrightarrow>
         (\<exists>w. cfg = Value w \<and>
            (js_get w ''type'' = JStr ''echo'' \<or> js_get w ''type'' = JStr ''echo-presence'') \<and>
            \<not> truthy (js_get w ''echo''))"
  let ?v = "JObj [(''type'', JStr ''echo-presence''), (''echo'', JObj [(''connector'', JObj [])]), (''callbacks'', JNull)]"
  have "createSignalingAdapter (Value ?v) = Inl TypeError"
    by (simp add: LaravelEchoPresenceAdapter_new_def get_prop_def)
  with a have "\<exists>w. Value ?v = Value w \<and>
            (js_get w ''type'' = JStr ''echo'' \<or> js_get w ''type'' = JStr ''echo-presence'') \<and>
            \<not> truthy (js_get w ''echo'')"
    by blast
  then show False by simp
qed

end
